theory Spec2Isabelle
  imports Main "HOL-Library.AList" "HOL-Library.List_Lexorder" "HOL-Library.Char_ord"
begin

section \<open>Data model\<close>

text \<open>
  A JSON value (\<^verbatim>\<open>JsonValue\<close>). JavaScript numbers are modelled by integers; a JavaScript
  object is an association list in insertion order.
\<close>

datatype json =
    JNull
  | JBool bool
  | JNum int
  | JStr string
  | JArr "json list"
  | JObj "(string \<times> json) list"

text \<open>
  A value as the server reads it out of a result row or binds it to a statement:
  \<^verbatim>\<open>SQLOutputValue\<close> is null, a number or a string (a \<^verbatim>\<open>Uint8Array\<close> is left out: no
  statement of the server binds one, and it is no \<^verbatim>\<open>Array\<close> either). \<open>SArray\<close> is the
  JavaScript array that \<^verbatim>\<open>_convertToReturn\<close> tests for with \<^verbatim>\<open>Array.isArray\<close>; it is not
  an \<^verbatim>\<open>SQLOutputValue\<close>.
\<close>

datatype sqlval =
    SNull
  | SNum int
  | SText string
  | SArray "sqlval list"

fun is_SQLOutputValue :: "sqlval \<Rightarrow> bool" where
  "is_SQLOutputValue (SArray _) = False"
| "is_SQLOutputValue _ = True"

text \<open>A logical row and a physical row (\<^verbatim>\<open>Record<string, SQLOutputValue>\<close>): objects keyed by
  column name.\<close>

type_synonym row = "(string \<times> json) list"
type_synonym prow = "(string \<times> sqlval) list"

record columnCfg =
  key :: string
  type :: string

record tableCfg =
  tkey :: string
  ttype :: string
  columns :: "columnCfg list"
  thash :: string

record rljsonTable =
  t_type :: string
  t_data :: "row list"
  t_tableCfg :: "string option"
  t_hash :: "string option"

datatype error =
    UnsupportedColumnType string
  | JsonSyntaxError
  | TypeError
  | TableNotFound string
  | ColumnNotFound string
  | SchemaIncompatible string
  | SqlError string string
  | WriteErrors string
  | UnsupportedValueType string
  | NotOpen

section \<open>Name mapping\<close>

text \<open>
  \<^verbatim>\<open>IoDbNameMapping\<close> belongs to the io library. It appends a fixed suffix to a table key and
  to a column key; the suffixes are taken as \<open>_tbl\<close> and \<open>_col\<close>.
\<close>

definition addTableSuffix :: "string \<Rightarrow> string" where
  "addTableSuffix k = k @ ''_tbl''"

definition addColumnSuffix :: "string \<Rightarrow> string" where
  "addColumnSuffix k = k @ ''_col''"

section \<open>Column codec\<close>

text \<open>
  One cell of \<^verbatim>\<open>_serializeRow\<close>: \<^verbatim>\<open>rowAsJson[key] ?? null\<close>, then objects and arrays are
  stringified and booleans become 1 or 0. The branch is chosen by the type of the value,
  not by the declared type of the column. \<open>stringify\<close> is \<^verbatim>\<open>JSON.stringify\<close>.
\<close>

fun serializeValue :: "(json \<Rightarrow> string) \<Rightarrow> json option \<Rightarrow> sqlval" where
  "serializeValue stringify None = SNull"
| "serializeValue stringify (Some JNull) = SNull"
| "serializeValue stringify (Some (JArr xs)) = SText (stringify (JArr xs))"
| "serializeValue stringify (Some (JObj kvs)) = SText (stringify (JObj kvs))"
| "serializeValue stringify (Some (JBool b)) = SNum (if b then 1 else 0)"
| "serializeValue stringify (Some (JNum n)) = SNum n"
| "serializeValue stringify (Some (JStr s)) = SText s"

definition serializeRow :: "(json \<Rightarrow> string) \<Rightarrow> row \<Rightarrow> tableCfg \<Rightarrow> sqlval list" where
  "serializeRow stringify rowAsJson cfg =
     map (\<lambda>col. serializeValue stringify (map_of rowAsJson (key col))) (columns cfg)"

text \<open>JavaScript's conversion of a value to a string, as \<^verbatim>\<open>JSON.parse\<close> and a template
  literal apply it.\<close>

definition digit_char :: "nat \<Rightarrow> char" where
  "digit_char n = ''0123456789'' ! n"

fun show_nat :: "nat \<Rightarrow> string" where
  "show_nat n = (if n < 10 then [digit_char n] else show_nat (n div 10) @ [digit_char (n mod 10)])"

declare show_nat.simps [simp del]

definition show_int :: "int \<Rightarrow> string" where
  "show_int i = (if i < 0 then CHR ''-'' # show_nat (nat (- i)) else show_nat (nat i))"

fun join :: "string \<Rightarrow> string list \<Rightarrow> string" where
  "join sep [] = []"
| "join sep [x] = x"
| "join sep (x # y # ys) = x @ sep @ join sep (y # ys)"

fun String_of :: "sqlval \<Rightarrow> string" where
  "String_of SNull = ''null''"
| "String_of (SNum n) = show_int n"
| "String_of (SText s) = s"
| "String_of (SArray xs) = join '','' (map (\<lambda>x. if x = SNull then [] else String_of x) xs)"

text \<open>A stored value handed on unchanged (\<^verbatim>\<open>convertedRow[key] = val\<close>).\<close>

fun json_of :: "sqlval \<Rightarrow> json" where
  "json_of SNull = JNull"
| "json_of (SNum n) = JNum n"
| "json_of (SText s) = JStr s"
| "json_of (SArray xs) = JArr (map json_of xs)"

text \<open>
  The \<^verbatim>\<open>switch (type)\<close> of \<^verbatim>\<open>_parseData\<close>, reached for a value that is neither
  \<^verbatim>\<open>undefined\<close> nor \<^verbatim>\<open>null\<close>. \<open>parse\<close> is \<^verbatim>\<open>JSON.parse\<close>; \<open>None\<close> is its
  \<^verbatim>\<open>SyntaxError\<close>.
\<close>

definition decodeValue :: "(string \<Rightarrow> json option) \<Rightarrow> string \<Rightarrow> sqlval \<Rightarrow> error + json" where
  "decodeValue parse ty val =
     (if ty = ''boolean'' then Inr (JBool (val \<noteq> SNum 0))
      else if ty = ''jsonArray'' \<or> ty = ''json'' then
        (case parse (String_of val) of None \<Rightarrow> Inl JsonSyntaxError | Some j \<Rightarrow> Inr j)
      else if ty = ''string'' \<or> ty = ''number'' then Inr (json_of val)
      else Inl (UnsupportedColumnType ty))"

text \<open>The inner loop of \<^verbatim>\<open>_parseData\<close> over the columns of the table configuration;
  \<open>acc\<close> is \<^verbatim>\<open>convertedRow\<close>.\<close>

fun parseColumns :: "(string \<Rightarrow> json option) \<Rightarrow> prow \<Rightarrow> columnCfg list \<Rightarrow> row \<Rightarrow> error + row" where
  "parseColumns parse r [] acc = Inr acc"
| "parseColumns parse r (col # cols) acc =
     (case map_of r (addColumnSuffix (key col)) of
        None \<Rightarrow> parseColumns parse r cols acc
      | Some SNull \<Rightarrow> parseColumns parse r cols acc
      | Some val \<Rightarrow>
          (case decodeValue parse (type col) val of
             Inl e \<Rightarrow> Inl e
           | Inr j \<Rightarrow> parseColumns parse r cols (AList.update (key col) j acc)))"

fun parseRows :: "(string \<Rightarrow> json option) \<Rightarrow> prow list \<Rightarrow> tableCfg \<Rightarrow> error + row list" where
  "parseRows parse [] cfg = Inr []"
| "parseRows parse (r # rs) cfg =
     (case parseColumns parse r (columns cfg) [] of
        Inl e \<Rightarrow> Inl e
      | Inr converted \<Rightarrow>
          (case parseRows parse rs cfg of Inl e \<Rightarrow> Inl e | Inr rest \<Rightarrow> Inr (converted # rest)))"

definition parseData :: "(string \<Rightarrow> json option) \<Rightarrow> prow list \<Rightarrow> tableCfg \<Rightarrow> error + row list" where
  "parseData parse data cfg = parseRows parse data cfg"

section \<open>Result sets\<close>

text \<open>
  \<^verbatim>\<open>row[idx]\<close> on a JavaScript value: an array element, a character of a string,
  \<^verbatim>\<open>undefined\<close> (\<open>Inr None\<close>) on a number or out of range, a \<^verbatim>\<open>TypeError\<close> on null.
\<close>

fun js_index :: "sqlval \<Rightarrow> nat \<Rightarrow> error + sqlval option" where
  "js_index SNull i = Inl TypeError"
| "js_index (SNum n) i = Inr None"
| "js_index (SText s) i = Inr (if i < length s then Some (SText [s ! i]) else None)"
| "js_index (SArray xs) i = Inr (if i < length xs then Some (xs ! i) else None)"

text \<open>\<^verbatim>\<open>columns.forEach((col, idx) => obj[col] = row[idx])\<close>; a key assigned
  \<^verbatim>\<open>undefined\<close> reads as a missing one.\<close>

fun fillObject :: "sqlval \<Rightarrow> sqlval list \<Rightarrow> nat \<Rightarrow> prow \<Rightarrow> error + prow" where
  "fillObject r [] idx obj = Inr obj"
| "fillObject r (col # cols) idx obj =
     (case js_index r idx of
        Inl e \<Rightarrow> Inl e
      | Inr None \<Rightarrow> fillObject r cols (Suc idx) (AList.delete (String_of col) obj)
      | Inr (Some v) \<Rightarrow> fillObject r cols (Suc idx) (AList.update (String_of col) v obj))"

fun mapRows :: "sqlval list \<Rightarrow> sqlval list \<Rightarrow> error + prow list" where
  "mapRows [] cols = Inr []"
| "mapRows (r # rs) cols =
     (case fillObject r cols 0 [] of
        Inl e \<Rightarrow> Inl e
      | Inr obj \<Rightarrow> (case mapRows rs cols of Inl e \<Rightarrow> Inl e | Inr rest \<Rightarrow> Inr (obj # rest)))"

text \<open>
  \<^verbatim>\<open>_convertToReturn\<close>: it reads the properties \<^verbatim>\<open>values\<close> and \<^verbatim>\<open>columns\<close> of the first
  element of the result set and returns the empty list unless both are arrays.
\<close>

definition convertToReturn :: "prow list \<Rightarrow> error + prow list" where
  "convertToReturn resultSet =
     (case resultSet of
        [] \<Rightarrow> Inr []
      | first # _ \<Rightarrow>
          (case (map_of first ''values'', map_of first ''columns'') of
             (Some (SArray rows), Some (SArray cols)) \<Rightarrow> mapRows rows cols
           | _ \<Rightarrow> Inr []))"

text \<open>A result set as \<^verbatim>\<open>StatementSync.all()\<close> returns it: every cell is an
  \<^verbatim>\<open>SQLOutputValue\<close>.\<close>

definition sql_result :: "prow list \<Rightarrow> bool" where
  "sql_result rs = list_all (\<lambda>r. list_all (\<lambda>kv. is_SQLOutputValue (snd kv)) r) rs"

section \<open>Collaborators\<close>

text \<open>
  Functions of JavaScript and of the hash, io and rljson libraries that the server calls.
  They are parameters of the model: \<^verbatim>\<open>JSON.stringify\<close>, \<^verbatim>\<open>JSON.parse\<close> (\<open>None\<close> is a
  \<^verbatim>\<open>SyntaxError\<close>), \<^verbatim>\<open>Number\<close> on a string (\<open>None\<close> is \<^verbatim>\<open>NaN\<close>), the text a template
  literal writes for a number, \<^verbatim>\<open>hsh\<close> on a row and on a table configuration, the hash
  that \<^verbatim>\<open>sortTableDataAndUpdateHash\<close> sorts rows by and the hash it gives the table, and
  the column that \<^verbatim>\<open>SqlStatements.createTable\<close> declares as primary key.
\<close>

record collab =
  stringify :: "json \<Rightarrow> string"
  parse :: "string \<Rightarrow> json option"
  strToNum :: "string \<Rightarrow> int option"
  numberText :: "int \<Rightarrow> string"
  hshRow :: "row \<Rightarrow> row"
  cfgHash :: "tableCfg \<Rightarrow> string"
  rowHash :: "row \<Rightarrow> string"
  tableHash :: "rljsonTable \<Rightarrow> string"
  primaryKey :: "tableCfg \<Rightarrow> string option"

section \<open>Storage engine\<close>

text \<open>
  The engine is SQLite behind the \<^verbatim>\<open>DatabaseSync\<close> connection of \<^verbatim>\<open>node:sqlite\<close>. Its
  state is modelled by the physical tables of the user tables by physical name, each with
  its columns, its primary key column and its rows in insertion order, and by the rows
  of the physical table of table configurations (\<open>cfgRows\<close>), oldest first.
\<close>

text \<open>
  Modelled from the spec: \<open>registry\<close> holds the configurations that the tools of the io
  library (\<^verbatim>\<open>IoTools\<close>) resolve, oldest first: the append-only log of versions of the
  spec's schema registry. How the library reads them is not among the sources; no
  function of the server writes this field.
\<close>

record ptable =
  pcols :: "string list"
  pkey :: "string option"
  prows :: "sqlval list list"

record db =
  ptables :: "(string \<times> ptable) list"
  registry :: "tableCfg list"
  cfgRows :: "sqlval list list"

type_synonym sqlerr = "string \<times> string"

text \<open>
  The statements the server prepares. The engine is given a statement in structured
  form, with the bound parameters apart: the table and the columns of an insert, the
  table and the filter of a filtered read, the table and the columns of a full read, the
  table of a count, the lookup and the insert of a table configuration, the creation of
  a table from its name, columns and primary key, the addition of a column. The SQL text
  the server builds for an insert is \<open>insertQuery\<close> and for a filtered read
  \<open>readQuery\<close>, below.
\<close>

text \<open>
  Modelled from the spec: the texts of the other statements come from
  \<^verbatim>\<open>SqlStatements\<close>, which is not among the sources: \<^verbatim>\<open>allData\<close> selects the named
  columns of a table, \<^verbatim>\<open>rowCount\<close> counts its rows, \<^verbatim>\<open>tableCfg\<close> selects the stored
  configuration whose key column equals the bound parameter, \<^verbatim>\<open>insertTableCfg()\<close> inserts
  a row into the table of table configurations with one placeholder per column,
  \<^verbatim>\<open>createTable\<close> emits one physical column per column of the configuration in declared
  order, \<^verbatim>\<open>alterTable\<close> emits one statement per added column.
\<close>

datatype stmt =
    InsertOrIgnore string "string list"
  | SelectWhere string "(string \<times> json) list"
  | SelectAll string "string list"
  | CountRows string
  | SelectTableCfg
  | InsertTableCfg
  | CreateTable string "string list" "string option"
  | AddColumn string string

definition cell :: "string list \<Rightarrow> sqlval list \<Rightarrow> string \<Rightarrow> sqlval" where
  "cell cols vals c = (case map_of (zip cols vals) c of None \<Rightarrow> SNull | Some v \<Rightarrow> v)"

definition collides :: "ptable \<Rightarrow> sqlval list \<Rightarrow> bool" where
  "collides pt newrow =
     (case pkey pt of
        None \<Rightarrow> False
      | Some k \<Rightarrow> cell (pcols pt) newrow k \<noteq> SNull
                 \<and> list_ex (\<lambda>r. cell (pcols pt) r k = cell (pcols pt) newrow k) (prows pt))"

text \<open>
  \<^verbatim>\<open>INSERT OR IGNORE INTO t (cols) VALUES (?, ...)\<close> as SQLite runs it: an unknown table
  or column is an error; a row whose primary key is already stored is skipped without an
  error; any other row is appended, columns without a value being NULL.
\<close>

definition sqlInsertOrIgnore :: "db \<Rightarrow> string \<Rightarrow> string list \<Rightarrow> sqlval list \<Rightarrow> sqlerr + db" where
  "sqlInsertOrIgnore d t cols vals =
     (case map_of (ptables d) t of
        None \<Rightarrow> Inl (''ERR_SQLITE_ERROR'', ''no such table: '' @ t)
      | Some pt \<Rightarrow>
          (case filter (\<lambda>c. c \<notin> set (pcols pt)) cols of
             c # _ \<Rightarrow> Inl (''ERR_SQLITE_ERROR'', ''table '' @ t @ '' has no column named '' @ c)
           | [] \<Rightarrow>
               (let newrow = map (cell cols vals) (pcols pt) in
                if collides pt newrow then Inr d
                else Inr (d\<lparr>ptables :=
                            AList.update t (pt\<lparr>prows := prows pt @ [newrow]\<rparr>) (ptables d)\<rparr>))))"

text \<open>The value a filter entry is compared with, after \<^verbatim>\<open>_whereString\<close> has written it into
  the statement; \<open>None\<close> stands for \<^verbatim>\<open>IS NULL\<close>.\<close>

fun whereLiteral :: "(json \<Rightarrow> string) \<Rightarrow> json \<Rightarrow> sqlval option" where
  "whereLiteral sfy (JStr s) = Some (SText s)"
| "whereLiteral sfy (JNum n) = Some (SNum n)"
| "whereLiteral sfy (JBool b) = Some (SNum (if b then 1 else 0))"
| "whereLiteral sfy JNull = None"
| "whereLiteral sfy v = Some (SText (sfy v))"

definition rowMatches :: "(json \<Rightarrow> string) \<Rightarrow> string list \<Rightarrow> (string \<times> json) list \<Rightarrow> sqlval list \<Rightarrow> bool" where
  "rowMatches sfy cols wh r =
     list_all (\<lambda>(column, v). case whereLiteral sfy v of
                 None \<Rightarrow> cell cols r (addColumnSuffix column) = SNull
               | Some lit \<Rightarrow> cell cols r (addColumnSuffix column) = lit) wh"

text \<open>
  \<^verbatim>\<open>prepare(sql).all()\<close>: one object per result row, keyed by column name. A filtered
  read returns the rows that satisfy every condition of the filter; a filter with no
  entry gives a text that ends after \<open>WHERE\<close>, which is an error. The count is
  returned in one row, in a column named after the counting expression.
\<close>

fun sqlAll :: "(json \<Rightarrow> string) \<Rightarrow> db \<Rightarrow> stmt \<Rightarrow> sqlerr + prow list" where
  "sqlAll sfy d (SelectAll t cols) =
     (case map_of (ptables d) t of
        None \<Rightarrow> Inl (''ERR_SQLITE_ERROR'', ''no such table: '' @ t)
      | Some pt \<Rightarrow>
          (case filter (\<lambda>c. c \<notin> set (pcols pt)) cols of
             c # _ \<Rightarrow> Inl (''ERR_SQLITE_ERROR'', ''no such column: '' @ c)
           | [] \<Rightarrow> Inr (map (\<lambda>r. map (\<lambda>c. (c, cell (pcols pt) r c)) cols) (prows pt))))"
| "sqlAll sfy d (SelectWhere t wh) =
     (case map_of (ptables d) t of
        None \<Rightarrow> Inl (''ERR_SQLITE_ERROR'', ''no such table: '' @ t)
      | Some pt \<Rightarrow>
          (if wh = [] then Inl (''ERR_SQLITE_ERROR'', ''incomplete input'')
           else
             (case filter (\<lambda>c. c \<notin> set (pcols pt)) (map (\<lambda>(column, v). addColumnSuffix column) wh) of
                c # _ \<Rightarrow> Inl (''ERR_SQLITE_ERROR'', ''no such column: '' @ c)
              | [] \<Rightarrow> Inr (map (\<lambda>r. map (\<lambda>c. (c, cell (pcols pt) r c)) (pcols pt))
                             (filter (rowMatches sfy (pcols pt) wh) (prows pt))))))"
| "sqlAll sfy d (CountRows t) =
     (case map_of (ptables d) t of
        None \<Rightarrow> Inl (''ERR_SQLITE_ERROR'', ''no such table: '' @ t)
      | Some pt \<Rightarrow> Inr [[(''COUNT(*)'', SNum (int (length (prows pt))))]])"
| "sqlAll sfy d _ = Inr []"

text \<open>\<^verbatim>\<open>CREATE TABLE\<close> and \<^verbatim>\<open>ALTER TABLE ... ADD COLUMN\<close>.\<close>

definition sqlCreateTable :: "db \<Rightarrow> string \<Rightarrow> string list \<Rightarrow> string option \<Rightarrow> sqlerr + db" where
  "sqlCreateTable d t cols pk =
     (case map_of (ptables d) t of
        Some _ \<Rightarrow> Inl (''ERR_SQLITE_ERROR'', ''table '' @ t @ '' already exists'')
      | None \<Rightarrow> Inr (d\<lparr>ptables := ptables d @ [(t, \<lparr>pcols = cols, pkey = pk, prows = []\<rparr>)]\<rparr>))"

definition sqlAddColumn :: "db \<Rightarrow> string \<Rightarrow> string \<Rightarrow> sqlerr + db" where
  "sqlAddColumn d t c =
     (case map_of (ptables d) t of
        None \<Rightarrow> Inl (''ERR_SQLITE_ERROR'', ''no such table: '' @ t)
      | Some pt \<Rightarrow>
          (if c \<in> set (pcols pt) then Inl (''ERR_SQLITE_ERROR'', ''duplicate column name: '' @ c)
           else Inr (d\<lparr>ptables :=
                       AList.update t (pt\<lparr>pcols := pcols pt @ [c],
                                          prows := map (\<lambda>r. r @ [SNull]) (prows pt)\<rparr>) (ptables d)\<rparr>)))"

text \<open>
  Modelled from the spec: \<^verbatim>\<open>IoTools.tableCfgsTableCfg\<close>, the configuration of the table of
  table configurations, with one column per field of the configuration shape, the hash
  first; the hash column is the primary key of the table.
\<close>

definition tableCfgsTableCfg :: tableCfg where
  "tableCfgsTableCfg =
     \<lparr>tkey = ''tableCfgs'', ttype = ''tableCfgs'',
      columns = [\<lparr>key = ''_hash'', type = ''string''\<rparr>, \<lparr>key = ''key'', type = ''string''\<rparr>,
                 \<lparr>key = ''type'', type = ''string''\<rparr>, \<lparr>key = ''columns'', type = ''jsonArray''\<rparr>],
      thash = []\<rparr>"

definition cfgColumns :: "string list" where
  "cfgColumns = map (\<lambda>col. addColumnSuffix (key col)) (columns tableCfgsTableCfg)"

text \<open>
  The insert into the table of table configurations: the bound parameters fill the
  placeholders in order and a placeholder without a parameter is NULL; a row whose hash
  is stored already violates the primary key.
\<close>

definition sqlInsertTableCfg :: "db \<Rightarrow> sqlval list \<Rightarrow> sqlerr + db" where
  "sqlInsertTableCfg d vals =
     (let newrow = map (cell cfgColumns vals) cfgColumns;
          h = cell cfgColumns newrow (addColumnSuffix ''_hash'') in
      if h \<noteq> SNull \<and> list_ex (\<lambda>r. cell cfgColumns r (addColumnSuffix ''_hash'') = h) (cfgRows d)
      then Inl (''ERR_SQLITE_ERROR'',
                ''UNIQUE constraint failed: '' @ addTableSuffix ''tableCfgs'' @ ''.'' @ addColumnSuffix ''_hash'')
      else Inr (d\<lparr>cfgRows := cfgRows d @ [newrow]\<rparr>))"

text \<open>\<^verbatim>\<open>prepare(sql).run(...)\<close> and \<^verbatim>\<open>exec(sql)\<close>.\<close>

fun sqlRun :: "db \<Rightarrow> stmt \<Rightarrow> sqlval list \<Rightarrow> sqlerr + db" where
  "sqlRun d (InsertOrIgnore t cols) vals = sqlInsertOrIgnore d t cols vals"
| "sqlRun d InsertTableCfg vals = sqlInsertTableCfg d vals"
| "sqlRun d (CreateTable t cols pk) vals = sqlCreateTable d t cols pk"
| "sqlRun d (AddColumn t c) vals = sqlAddColumn d t c"
| "sqlRun d _ vals = Inr d"

text \<open>\<^verbatim>\<open>prepare(sql).get(...)\<close>: the first result row, if any. The lookup of a table
  configuration returns the first stored row whose key column holds the bound key.\<close>

fun sqlGet :: "db \<Rightarrow> stmt \<Rightarrow> sqlval list \<Rightarrow> sqlerr + prow option" where
  "sqlGet d SelectTableCfg vals =
     (case vals of
        [] \<Rightarrow> Inr None
      | k # _ \<Rightarrow>
          (case filter (\<lambda>r. k \<noteq> SNull \<and> cell cfgColumns r (addColumnSuffix ''key'') = k) (cfgRows d) of
             [] \<Rightarrow> Inr None
           | r # _ \<Rightarrow> Inr (Some (map (\<lambda>c. (c, cell cfgColumns r c)) cfgColumns))))"
| "sqlGet d _ vals = Inr None"

section \<open>Schema registry\<close>

text \<open>
  Modelled from the spec: \<^verbatim>\<open>IoTools.tableCfg\<close> of the io library, the spec's
  \<^verbatim>\<open>activeConfig(tableKey)\<close>: the latest configuration of the registry for the key, if any.
\<close>

definition activeCfg :: "tableCfg list \<Rightarrow> string \<Rightarrow> tableCfg option" where
  "activeCfg reg k = (case filter (\<lambda>c. tkey c = k) reg of [] \<Rightarrow> None | c # cs \<Rightarrow> Some (last (c # cs)))"

text \<open>\<^verbatim>\<open>_tableExists\<close> asks the engine's catalogue for the physical name.\<close>

definition tableExists :: "db \<Rightarrow> string \<Rightarrow> bool" where
  "tableExists d tableKey = (map_of (ptables d) (addTableSuffix tableKey) \<noteq> None)"

text \<open>
  Modelled from the spec: the guards of \<^verbatim>\<open>IoTools\<close>. A table that does not exist is
  \<^verbatim>\<open>TableNotFound\<close>; a filter column or a row column outside the schema is
  \<^verbatim>\<open>ColumnNotFound\<close>; an update of a registered table whose stored columns are not a prefix
  of the new columns is \<^verbatim>\<open>SchemaIncompatible\<close>.
\<close>

definition throwWhenTableDoesNotExist :: "db \<Rightarrow> string \<Rightarrow> error + unit" where
  "throwWhenTableDoesNotExist d t = (if tableExists d t then Inr () else Inl (TableNotFound t))"

definition throwWhenTablesDoNotExist :: "db \<Rightarrow> (string \<times> rljsonTable) list \<Rightarrow> error + unit" where
  "throwWhenTablesDoNotExist d data =
     (case filter (\<lambda>(t, tbl). \<not> tableExists d t) data of
        [] \<Rightarrow> Inr ()
      | (t, tbl) # _ \<Rightarrow> Inl (TableNotFound t))"

definition throwWhenColumnDoesNotExist :: "db \<Rightarrow> string \<Rightarrow> string list \<Rightarrow> error + unit" where
  "throwWhenColumnDoesNotExist d t cs =
     (case activeCfg (registry d) t of
        None \<Rightarrow> Inl (TableNotFound t)
      | Some cfg \<Rightarrow>
          (case filter (\<lambda>c. c \<notin> set (map key (columns cfg))) cs of
             [] \<Rightarrow> Inr ()
           | c # _ \<Rightarrow> Inl (ColumnNotFound c)))"

definition throwWhenTableDataDoesNotMatchCfg :: "db \<Rightarrow> (string \<times> rljsonTable) list \<Rightarrow> error + unit" where
  "throwWhenTableDataDoesNotMatchCfg d data =
     (case concat (map (\<lambda>(t, tbl).
              case activeCfg (registry d) t of
                None \<Rightarrow> [TableNotFound t]
              | Some cfg \<Rightarrow>
                  map ColumnNotFound
                    (filter (\<lambda>c. c \<notin> set (map key (columns cfg))) (concat (map (map fst) (t_data tbl)))))
            data) of
        [] \<Rightarrow> Inr ()
      | e # _ \<Rightarrow> Inl e)"

definition throwWhenTableIsNotCompatible :: "db \<Rightarrow> tableCfg \<Rightarrow> error + unit" where
  "throwWhenTableIsNotCompatible d new =
     (case activeCfg (registry d) (tkey new) of
        None \<Rightarrow> Inr ()
      | Some old \<Rightarrow>
          (if take (length (columns old)) (columns new) = columns old then Inr ()
           else Inl (SchemaIncompatible (tkey new))))"

section \<open>The server\<close>

subsection \<open>Hashing\<close>

text \<open>\<^verbatim>\<open>hsh\<close> on a table configuration returns a copy with the hash field set.\<close>

definition hshTableCfg :: "collab \<Rightarrow> tableCfg \<Rightarrow> tableCfg" where
  "hshTableCfg env cfg = cfg\<lparr>thash := cfgHash env cfg\<rparr>"

text \<open>\<^verbatim>\<open>hsh\<close> on the request of \<^verbatim>\<open>write\<close>: every row of every table is hashed.\<close>

definition hshData :: "collab \<Rightarrow> (string \<times> rljsonTable) list \<Rightarrow> (string \<times> rljsonTable) list" where
  "hshData env data = map (\<lambda>(t, tbl). (t, tbl\<lparr>t_data := map (hshRow env) (t_data tbl)\<rparr>)) data"

definition sortTableDataAndUpdateHash :: "collab \<Rightarrow> rljsonTable \<Rightarrow> rljsonTable" where
  "sortTableDataAndUpdateHash env t =
     (let sorted = t\<lparr>t_data := sort_key (rowHash env) (t_data t)\<rparr>
      in sorted\<lparr>t_hash := Some (tableHash env sorted)\<rparr>)"

subsection \<open>\<^verbatim>\<open>_write\<close>\<close>

definition insertStmt :: "string \<Rightarrow> tableCfg \<Rightarrow> stmt" where
  "insertStmt tableName cfg =
     InsertOrIgnore (addTableSuffix tableName) (map (\<lambda>col. addColumnSuffix (key col)) (columns cfg))"

text \<open>The text of the statement, as the template literal of \<^verbatim>\<open>_write\<close> builds it.\<close>

definition insertQuery :: "string \<Rightarrow> tableCfg \<Rightarrow> string" where
  "insertQuery tableName cfg =
     ''INSERT OR IGNORE INTO '' @ addTableSuffix tableName @ '' (''
       @ join '', '' (map (\<lambda>col. addColumnSuffix (key col)) (columns cfg))
       @ '') VALUES ('' @ join '', '' (map (\<lambda>col. ''?'') (columns cfg)) @ '')''"

definition errorLine :: "string \<Rightarrow> string \<Rightarrow> string" where
  "errorLine tableName errorMessage = ''Error inserting into table '' @ tableName @ '': '' @ errorMessage"

text \<open>
  The loop over the rows of one table. \<open>run\<close> is \<^verbatim>\<open>prepare(query).run(...)\<close>; the pair is
  the engine state and \<^verbatim>\<open>errorStore\<close>. An error with the code of a primary key collision
  leaves the callback of the table by \<^verbatim>\<open>return\<close>; any other error is stored and the loop
  goes on.
\<close>

fun writeRows ::
  "(db \<Rightarrow> stmt \<Rightarrow> sqlval list \<Rightarrow> sqlerr + db) \<Rightarrow> collab \<Rightarrow> string \<Rightarrow> tableCfg \<Rightarrow> row list
     \<Rightarrow> db \<times> string list \<Rightarrow> db \<times> string list" where
  "writeRows run env tableName cfg [] (d, errs) = (d, errs)"
| "writeRows run env tableName cfg (r # rs) (d, errs) =
     (case run d (insertStmt tableName cfg) (serializeRow (stringify env) r cfg) of
        Inr d' \<Rightarrow> writeRows run env tableName cfg rs (d', errs)
      | Inl (code, errorMessage) \<Rightarrow>
          (if code = ''SQLITE_CONSTRAINT_PRIMARYKEY'' then (d, errs)
           else writeRows run env tableName cfg rs (d, errs @ [errorLine tableName errorMessage])))"

text \<open>\<^verbatim>\<open>iterateTables\<close>: the tables of the request in order; the configuration of each is the
  active one.\<close>

fun writeTables ::
  "(db \<Rightarrow> stmt \<Rightarrow> sqlval list \<Rightarrow> sqlerr + db) \<Rightarrow> collab \<Rightarrow> (string \<times> rljsonTable) list
     \<Rightarrow> db \<times> string list \<Rightarrow> error option \<times> db \<times> string list" where
  "writeTables run env [] (d, errs) = (None, d, errs)"
| "writeTables run env ((tableName, tableData) # rest) (d, errs) =
     (case activeCfg (registry d) tableName of
        None \<Rightarrow> (Some (TableNotFound tableName), d, errs)
      | Some cfg \<Rightarrow>
          writeTables run env rest (writeRows run env tableName cfg (t_data tableData) (d, errs)))"

text \<open>\<^verbatim>\<open>_write\<close> (\<open>write\<close> is a keyword here).\<close>

definition writeRljson ::
  "(db \<Rightarrow> stmt \<Rightarrow> sqlval list \<Rightarrow> sqlerr + db) \<Rightarrow> collab \<Rightarrow> db \<Rightarrow> (string \<times> rljsonTable) list
     \<Rightarrow> (error + unit) \<times> db" where
  "writeRljson run env d data =
     (let hashedData = hshData env data in
      case throwWhenTablesDoNotExist d data of
        Inl e \<Rightarrow> (Inl e, d)
      | Inr _ \<Rightarrow>
          (case throwWhenTableDataDoesNotMatchCfg d data of
             Inl e \<Rightarrow> (Inl e, d)
           | Inr _ \<Rightarrow>
               (case writeTables run env hashedData (d, []) of
                  (Some e, d', errs) \<Rightarrow> (Inl e, d')
                | (None, d', errs) \<Rightarrow>
                    (if length errs > 0
                     then (Inl (WriteErrors (''Errors occurred: '' @ join '', '' errs)), d')
                     else (Inr (), d')))))"

subsection \<open>The write path in the words of the spec\<close>

text \<open>
  The spec describes the write path as a fold that collects results: every row of every
  table is attempted in order on the state the earlier rows have left; a row that fails
  adds its message and leaves the state as it is. \<open>reg\<close> holds the configurations.
\<close>

definition attemptRow ::
  "(db \<Rightarrow> stmt \<Rightarrow> sqlval list \<Rightarrow> sqlerr + db) \<Rightarrow> collab \<Rightarrow> string \<Rightarrow> tableCfg
     \<Rightarrow> db \<times> string list \<Rightarrow> row \<Rightarrow> db \<times> string list" where
  "attemptRow run env tableName cfg acc r =
     (case run (fst acc) (insertStmt tableName cfg) (serializeRow (stringify env) r cfg) of
        Inr d' \<Rightarrow> (d', snd acc)
      | Inl (code, errorMessage) \<Rightarrow> (fst acc, snd acc @ [errorLine tableName errorMessage]))"

definition attemptAll ::
  "(db \<Rightarrow> stmt \<Rightarrow> sqlval list \<Rightarrow> sqlerr + db) \<Rightarrow> collab \<Rightarrow> tableCfg list
     \<Rightarrow> (string \<times> rljsonTable) list \<Rightarrow> db \<times> string list \<Rightarrow> db \<times> string list" where
  "attemptAll run env reg data acc =
     foldl (\<lambda>acc (tableName, tableData).
              foldl (attemptRow run env tableName (the (activeCfg reg tableName))) acc (t_data tableData))
       acc data"

subsection \<open>\<^verbatim>\<open>_whereString\<close> and \<^verbatim>\<open>_readRows\<close>\<close>






definition readRows ::
  "(db \<Rightarrow> stmt \<Rightarrow> sqlerr + prow list) \<Rightarrow> collab \<Rightarrow> db \<Rightarrow> string \<Rightarrow> (string \<times> json) list
     \<Rightarrow> error + string \<times> rljsonTable" where
  "readRows all env d table wh =
     (case throwWhenTableDoesNotExist d table of
        Inl e \<Rightarrow> Inl e
      | Inr _ \<Rightarrow>
     (case throwWhenColumnDoesNotExist d table (map fst wh) of
        Inl e \<Rightarrow> Inl e
      | Inr _ \<Rightarrow>
     (case activeCfg (registry d) table of
        None \<Rightarrow> Inl (TableNotFound table)
      | Some cfg \<Rightarrow>
     (case all d (SelectWhere (addTableSuffix table) wh) of
        Inl (code, msg) \<Rightarrow> Inl (SqlError code msg)
      | Inr resultSet \<Rightarrow>
          (if resultSet = [] then
             Inr (table, \<lparr>t_type = ttype cfg, t_data = [], t_tableCfg = None, t_hash = None\<rparr>)
           else
             (case convertToReturn resultSet of
                Inl e \<Rightarrow> Inl e
              | Inr jsonResultSet \<Rightarrow>
                  (case parseData (parse env) jsonResultSet cfg of
                     Inl e \<Rightarrow> Inl e
                   | Inr convertedResult \<Rightarrow>
                       Inr (table, sortTableDataAndUpdateHash env
                              \<lparr>t_type = ttype cfg, t_data = convertedResult,
                               t_tableCfg = None, t_hash = None\<rparr>))))))))"

subsection \<open>\<^verbatim>\<open>_dumpTable\<close>\<close>

definition dumpTable ::
  "(db \<Rightarrow> stmt \<Rightarrow> sqlerr + prow list) \<Rightarrow> collab \<Rightarrow> db \<Rightarrow> string \<Rightarrow> error + string \<times> rljsonTable" where
  "dumpTable all env d table =
     (case throwWhenTableDoesNotExist d table of
        Inl e \<Rightarrow> Inl e
      | Inr _ \<Rightarrow>
     (case activeCfg (registry d) table of
        None \<Rightarrow> Inl (TableNotFound table)
      | Some cfg \<Rightarrow>
     (case all d (SelectAll (addTableSuffix table)
                    (map (\<lambda>col. addColumnSuffix (key col)) (columns cfg))) of
        Inl (code, msg) \<Rightarrow> Inl (SqlError code msg)
      | Inr resultSet \<Rightarrow>
          (case convertToReturn resultSet of
             Inl e \<Rightarrow> Inl e
           | Inr jsonRows \<Rightarrow>
               (case parseData (parse env) jsonRows cfg of
                  Inl e \<Rightarrow> Inl e
                | Inr parsedReturnData \<Rightarrow>
                    Inr (table, sortTableDataAndUpdateHash env
                           \<lparr>t_type = ttype cfg, t_data = parsedReturnData,
                            t_tableCfg = Some (thash cfg), t_hash = Some []\<rparr>))))))"

subsection \<open>\<^verbatim>\<open>rowCount\<close>\<close>

text \<open>Optional chaining \<^verbatim>\<open>x?.[i]\<close>: \<^verbatim>\<open>undefined\<close> when \<open>x\<close> is null or undefined.\<close>

fun optIndex :: "sqlval option \<Rightarrow> nat \<Rightarrow> sqlval option" where
  "optIndex None i = None"
| "optIndex (Some SNull) i = None"
| "optIndex (Some v) i = (case js_index v i of Inl e \<Rightarrow> None | Inr r \<Rightarrow> r)"

text \<open>\<^verbatim>\<open>stmt?.[0]?.values?.[0]?.[0] ?? 0\<close>\<close>

definition countRaw :: "prow list \<Rightarrow> sqlval" where
  "countRaw stmt =
     (case optIndex (optIndex (case stmt of [] \<Rightarrow> None | first # _ \<Rightarrow> map_of first ''values'') 0) 0 of
        None \<Rightarrow> SNum 0
      | Some SNull \<Rightarrow> SNum 0
      | Some v \<Rightarrow> v)"

text \<open>\<^verbatim>\<open>Number(countRaw)\<close>; \<open>None\<close> is \<^verbatim>\<open>NaN\<close>.\<close>

fun Number_of :: "collab \<Rightarrow> sqlval \<Rightarrow> int option" where
  "Number_of env SNull = Some 0"
| "Number_of env (SNum n) = Some n"
| "Number_of env (SText s) = strToNum env s"
| "Number_of env (SArray xs) = strToNum env (String_of (SArray xs))"

definition rowCount ::
  "(db \<Rightarrow> stmt \<Rightarrow> sqlerr + prow list) \<Rightarrow> collab \<Rightarrow> db \<Rightarrow> string \<Rightarrow> error + int option" where
  "rowCount all env d table =
     (case throwWhenTableDoesNotExist d table of
        Inl e \<Rightarrow> Inl e
      | Inr _ \<Rightarrow>
          (case all d (CountRows (addTableSuffix table)) of
             Inl (code, msg) \<Rightarrow> Inl (SqlError code msg)
           | Inr stmt \<Rightarrow> Inr (Number_of env (countRaw stmt))))"

subsection \<open>\<^verbatim>\<open>_createOrExtendTable\<close>\<close>

text \<open>A table configuration as the JSON object that is serialized.\<close>

definition tableCfgJson :: "tableCfg \<Rightarrow> row" where
  "tableCfgJson cfg =
     [(''_hash'', JStr (thash cfg)), (''key'', JStr (tkey cfg)), (''type'', JStr (ttype cfg)),
      (''columns'', JArr (map (\<lambda>col. JObj [(''key'', JStr (key col)), (''type'', JStr (type col))])
                              (columns cfg)))]"

text \<open>\<^verbatim>\<open>values.join(', ')\<close>: a null element is written as the empty string.\<close>

definition joinValues :: "sqlval list \<Rightarrow> string" where
  "joinValues vals = join '', '' (map (\<lambda>v. if v = SNull then [] else String_of v) vals)"

text \<open>
  \<^verbatim>\<open>_insertTableCfg\<close>: the configuration is hashed in place by \<^verbatim>\<open>hip\<close> and serialized as a
  row of the table of table configurations; the values are joined into one string, and
  that string is the one parameter bound to the insert statement.
\<close>

definition insertTableCfg ::
  "(db \<Rightarrow> stmt \<Rightarrow> sqlval list \<Rightarrow> sqlerr + db) \<Rightarrow> collab \<Rightarrow> db \<Rightarrow> tableCfg \<Rightarrow> (error + unit) \<times> db" where
  "insertTableCfg run env d tableCfgHashed =
     (let vals = serializeRow (stringify env) (tableCfgJson (hshTableCfg env tableCfgHashed))
                   tableCfgsTableCfg;
          valuesString = joinValues vals in
      case run d InsertTableCfg [SText valuesString] of
        Inl (code, msg) \<Rightarrow> (Inl (SqlError code msg), d)
      | Inr d' \<Rightarrow> (Inr (), d'))"

text \<open>\<^verbatim>\<open>_createTable\<close>: the configuration is inserted, then the table is created.\<close>

definition createTable ::
  "(db \<Rightarrow> stmt \<Rightarrow> sqlval list \<Rightarrow> sqlerr + db) \<Rightarrow> collab \<Rightarrow> db \<Rightarrow> tableCfg \<Rightarrow> tableCfg
     \<Rightarrow> (error + unit) \<times> db" where
  "createTable run env d tableCfgHashed cfg =
     (case insertTableCfg run env d tableCfgHashed of
        (Inl e, d1) \<Rightarrow> (Inl e, d1)
      | (Inr _, d1) \<Rightarrow>
          (case run d1 (CreateTable (addTableSuffix (tkey cfg))
                          (map (\<lambda>col. addColumnSuffix (key col)) (columns cfg))
                          (map_option addColumnSuffix (primaryKey env cfg))) [] of
             Inl (code, msg) \<Rightarrow> (Inl (SqlError code msg), d1)
           | Inr d2 \<Rightarrow> (Inr (), d2)))"

text \<open>The loop of \<^verbatim>\<open>_extendTable\<close> over the statements that add the columns.\<close>

fun alterTable ::
  "(db \<Rightarrow> stmt \<Rightarrow> sqlval list \<Rightarrow> sqlerr + db) \<Rightarrow> db \<Rightarrow> string \<Rightarrow> columnCfg list \<Rightarrow> (error + unit) \<times> db" where
  "alterTable run d tableKey [] = (Inr (), d)"
| "alterTable run d tableKey (col # cols) =
     (case run d (AddColumn (addTableSuffix tableKey) (addColumnSuffix (key col))) [] of
        Inl (code, msg) \<Rightarrow> (Inl (SqlError code msg), d)
      | Inr d' \<Rightarrow> alterTable run d' tableKey cols)"

definition extendTable ::
  "(db \<Rightarrow> stmt \<Rightarrow> sqlval list \<Rightarrow> sqlerr + db) \<Rightarrow> collab \<Rightarrow> db \<Rightarrow> tableCfg \<Rightarrow> (error + unit) \<times> db" where
  "extendTable run env d newTableCfg =
     (case activeCfg (registry d) (tkey newTableCfg) of
        None \<Rightarrow> (Inl (TableNotFound (tkey newTableCfg)), d)
      | Some oldTableCfg \<Rightarrow>
          (let addedColumns = drop (length (columns oldTableCfg)) (columns newTableCfg) in
           if length addedColumns = 0 then (Inr (), d)
           else
             (case insertTableCfg run env d newTableCfg of
                (Inl e, d1) \<Rightarrow> (Inl e, d1)
              | (Inr _, d1) \<Rightarrow> alterTable run d1 (tkey newTableCfg) addedColumns)))"

text \<open>\<^verbatim>\<open>_createOrExtendTable\<close>; \<open>get\<close> is \<^verbatim>\<open>prepare(sql).get(...)\<close>.\<close>

definition createOrExtendTable ::
  "(db \<Rightarrow> stmt \<Rightarrow> sqlval list \<Rightarrow> sqlerr + db) \<Rightarrow> (db \<Rightarrow> stmt \<Rightarrow> sqlval list \<Rightarrow> sqlerr + prow option)
     \<Rightarrow> collab \<Rightarrow> db \<Rightarrow> tableCfg \<Rightarrow> (error + unit) \<times> db" where
  "createOrExtendTable run get env d cfg =
     (case throwWhenTableIsNotCompatible d cfg of
        Inl e \<Rightarrow> (Inl e, d)
      | Inr _ \<Rightarrow>
          (let tableCfgHashed = hshTableCfg env cfg in
           case get d SelectTableCfg [SText (tkey cfg)] of
             Inl (code, msg) \<Rightarrow> (Inl (SqlError code msg), d)
           | Inr None \<Rightarrow> createTable run env d tableCfgHashed cfg
           | Inr (Some exists) \<Rightarrow> extendTable run env d tableCfgHashed))"

section \<open>The \<^verbatim>\<open>NodeSQLite\<close> wrapper\<close>

text \<open>
  The connection behind the wrapper: its content, the content saved when a transaction
  was begun (\<open>None\<close> outside a transaction) and the statements it has been given.
\<close>

record 'd conn =
  content :: 'd
  saved :: "'d option"
  issued :: "string list"

text \<open>The engine on the three statements of transaction control; any other statement is
  recorded only.\<close>

definition engineRun :: "'d conn \<Rightarrow> string \<Rightarrow> (string + unit) \<times> 'd conn" where
  "engineRun c sql =
     (let c' = c\<lparr>issued := issued c @ [sql]\<rparr> in
      if sql = ''BEGIN TRANSACTION'' then
        (case saved c of
           Some _ \<Rightarrow> (Inl ''cannot start a transaction within a transaction'', c')
         | None \<Rightarrow> (Inr (), c'\<lparr>saved := Some (content c)\<rparr>))
      else if sql = ''COMMIT'' then
        (case saved c of
           None \<Rightarrow> (Inl ''cannot commit - no transaction is active'', c')
         | Some _ \<Rightarrow> (Inr (), c'\<lparr>saved := None\<rparr>))
      else if sql = ''ROLLBACK'' then
        (case saved c of
           None \<Rightarrow> (Inl ''cannot rollback - no transaction is active'', c')
         | Some old \<Rightarrow> (Inr (), c'\<lparr>content := old, saved := None\<rparr>))
      else (Inr (), c'))"

text \<open>\<^verbatim>\<open>NodeSQLite.execute\<close>; the field \<^verbatim>\<open>db\<close> is \<open>None\<close> when the database is closed.\<close>

definition execute :: "'d conn option \<Rightarrow> string \<Rightarrow> (string + unit) \<times> 'd conn option" where
  "execute db sql =
     (case db of
        None \<Rightarrow> (Inl ''Database is not open'', None)
      | Some c \<Rightarrow> (case engineRun c sql of (r, c') \<Rightarrow> (r, Some c')))"

text \<open>\<^verbatim>\<open>NodeSQLite.transaction\<close>; the callback works on the wrapper and returns a result or
  throws.\<close>

definition transaction ::
  "('d conn option \<Rightarrow> (string + 'r) \<times> 'd conn option) \<Rightarrow> 'd conn option
     \<Rightarrow> (string + 'r) \<times> 'd conn option" where
  "transaction fn db =
     (case db of
        None \<Rightarrow> (Inl ''Database is not open'', None)
      | Some _ \<Rightarrow>
          (case execute db ''BEGIN TRANSACTION'' of
             (Inl e, db1) \<Rightarrow> (Inl e, db1)
           | (Inr _, db1) \<Rightarrow>
               (case fn db1 of
                  (Inr result, db2) \<Rightarrow>
                    (case execute db2 ''COMMIT'' of
                       (Inr _, db3) \<Rightarrow> (Inr result, db3)
                     | (Inl error, db3) \<Rightarrow>
                         (case execute db3 ''ROLLBACK'' of
                            (Inl e, db4) \<Rightarrow> (Inl e, db4)
                          | (Inr _, db4) \<Rightarrow> (Inl error, db4)))
                | (Inl error, db2) \<Rightarrow>
                    (case execute db2 ''ROLLBACK'' of
                       (Inl e, db3) \<Rightarrow> (Inl e, db3)
                     | (Inr _, db3) \<Rightarrow> (Inl error, db3)))))"

section \<open>The statements an operation gives the engine\<close>







section \<open>Growth of the stored tables\<close>

text \<open>
  \<open>grown a b\<close>: the state \<open>b\<close> has the registry and the tables of \<open>a\<close>, with the same
  columns and primary keys, and every row stored in \<open>a\<close> is stored in \<open>b\<close>.
\<close>

definition grown :: "db \<Rightarrow> db \<Rightarrow> bool" where
  "grown a b \<longleftrightarrow>
     registry b = registry a \<and>
     (\<forall>t. case map_of (ptables a) t of
            None \<Rightarrow> map_of (ptables b) t = None
          | Some pa \<Rightarrow> (\<exists>pb. map_of (ptables b) t = Some pb \<and> pcols pb = pcols pa
                           \<and> pkey pb = pkey pa \<and> set (prows pa) \<subseteq> set (prows pb)))"

text \<open>
  \<open>keyed d env tableName cfg rows\<close>: if the physical table of \<open>tableName\<close> exists, it has
  a primary key and every row of \<open>rows\<close>, inserted by the statement of the configuration,
  has a value other than NULL in the primary key column. \<open>requestKeyed\<close> says so of
  every table of a hashed request.
\<close>

definition keyed :: "db \<Rightarrow> collab \<Rightarrow> string \<Rightarrow> tableCfg \<Rightarrow> row list \<Rightarrow> bool" where
  "keyed d env tableName cfg rows =
     (case map_of (ptables d) (addTableSuffix tableName) of
        None \<Rightarrow> True
      | Some pt \<Rightarrow>
          (case pkey pt of
             None \<Rightarrow> False
           | Some k \<Rightarrow>
               list_all (\<lambda>r. cell (pcols pt)
                                (map (cell (map (\<lambda>col. addColumnSuffix (key col)) (columns cfg))
                                           (serializeRow (stringify env) r cfg)) (pcols pt)) k \<noteq> SNull)
                 rows))"

definition requestKeyed :: "db \<Rightarrow> collab \<Rightarrow> (string \<times> rljsonTable) list \<Rightarrow> bool" where
  "requestKeyed d env hashedData =
     list_all (\<lambda>(tableName, tableData).
                 case activeCfg (registry d) tableName of
                   None \<Rightarrow> True
                 | Some cfg \<Rightarrow> keyed d env tableName cfg (t_data tableData))
       hashedData"

section \<open>Scenario\<close>

text \<open>
  The scenario of the spec: the table \<open>users\<close> with the columns \<open>id\<close> and \<open>name\<close> (and
  the hash column of every table), and two rows. The rows and the configuration arrive
  hashed, so that hashing has nothing to add; the primary key is the hash column; no
  value is an object and the numbers are written in decimal digits.
\<close>

definition exampleEnv :: collab where
  "exampleEnv =
     \<lparr>stringify = (\<lambda>j. ''{}''),
      parse = (\<lambda>s. None),
      strToNum = (\<lambda>s. None),
      numberText = show_int,
      hshRow = (\<lambda>r. r),
      cfgHash = thash,
      rowHash = (\<lambda>r. case map_of r ''_hash'' of Some (JStr h) \<Rightarrow> h | _ \<Rightarrow> []),
      tableHash = (\<lambda>t. []),
      primaryKey = (\<lambda>cfg. if ''_hash'' \<in> set (map key (columns cfg)) then Some ''_hash'' else None)\<rparr>"

definition usersCfg :: tableCfg where
  "usersCfg =
     \<lparr>tkey = ''users'', ttype = ''components'',
      columns = [\<lparr>key = ''_hash'', type = ''string''\<rparr>, \<lparr>key = ''id'', type = ''number''\<rparr>,
                 \<lparr>key = ''name'', type = ''string''\<rparr>],
      thash = ''c1''\<rparr>"

definition alice :: row where
  "alice = [(''_hash'', JStr ''h1''), (''id'', JNum 1), (''name'', JStr ''Alice'')]"

definition bob :: row where
  "bob = [(''_hash'', JStr ''h2''), (''id'', JNum 2), (''name'', JStr ''Bob'')]"

definition twoUsers :: "(string \<times> rljsonTable) list" where
  "twoUsers = [(''users'', \<lparr>t_type = ''components'', t_data = [alice, bob],
                            t_tableCfg = Some ''c1'', t_hash = None\<rparr>)]"

definition emptyDb :: db where
  "emptyDb = \<lparr>ptables = [], registry = [], cfgRows = []\<rparr>"

text \<open>A state in which the tools resolve the configuration of \<open>users\<close> and the table
  holds both rows.\<close>

definition usersDb :: db where
  "usersDb =
     \<lparr>ptables = [(''users_tbl'',
         \<lparr>pcols = [''_hash_col'', ''id_col'', ''name_col''], pkey = Some ''_hash_col'',
          prows = [[SText ''h1'', SNum 1, SText ''Alice''], [SText ''h2'', SNum 2, SText ''Bob'']]\<rparr>)],
      registry = [usersCfg], cfgRows = []\<rparr>"

text \<open>
  A state in which the registry is ahead of the physical table: the active configuration
  of \<open>users\<close> has the column \<open>email\<close>, the physical table has not. The table \<open>tags\<close>
  is in order. The request writes two users and one tag.
\<close>

definition staleDb :: db where
  "staleDb =
     \<lparr>ptables = [(''users_tbl'', \<lparr>pcols = [''_hash_col'', ''id_col'', ''name_col''],
                                   pkey = Some ''_hash_col'', prows = []\<rparr>),
                  (''tags_tbl'', \<lparr>pcols = [''_hash_col'', ''label_col''],
                                  pkey = Some ''_hash_col'', prows = []\<rparr>)],
      registry = [usersCfg,
                  usersCfg\<lparr>columns := columns usersCfg @ [\<lparr>key = ''email'', type = ''string''\<rparr>]\<rparr>,
                  \<lparr>tkey = ''tags'', ttype = ''components'',
                   columns = [\<lparr>key = ''_hash'', type = ''string''\<rparr>, \<lparr>key = ''label'', type = ''string''\<rparr>],
                   thash = ''c3''\<rparr>],
      cfgRows = []\<rparr>"

definition usersAndTags :: "(string \<times> rljsonTable) list" where
  "usersAndTags =
     twoUsers @ [(''tags'', \<lparr>t_type = ''components'',
                            t_data = [[(''_hash'', JStr ''h3''), (''label'', JStr ''new'')]],
                            t_tableCfg = None, t_hash = None\<rparr>)]"

section \<open>Properties\<close>

subsection \<open>Result sets of SQL values\<close>

text \<open>No SQL value is an array, so \<open>convertToReturn\<close> returns nothing for a result set
  of SQL values.\<close>

lemma map_of_sql_value:
  "list_all (\<lambda>kv. is_SQLOutputValue (snd kv)) r \<Longrightarrow> map_of r k = Some v \<Longrightarrow> is_SQLOutputValue v"
  by (induction r) (auto split: if_splits)

lemma convertToReturn_sql_result:
  assumes "sql_result rs"
  shows "convertToReturn rs = Inr []"
proof (cases rs)
  case Nil
  then show ?thesis by (simp add: convertToReturn_def)
next
  case (Cons first rest)
  with assms have ok: "list_all (\<lambda>kv. is_SQLOutputValue (snd kv)) first"
    by (simp add: sql_result_def)
  have "\<And>xs. map_of first ''values'' \<noteq> Some (SArray xs)"
    using map_of_sql_value [OF ok] by fastforce
  then show ?thesis
    using Cons by (auto simp: convertToReturn_def split: option.splits sqlval.splits)
qed

subsection \<open>Column codec\<close>

text \<open>
  C7 (as amended): a boolean is encoded as 1 or 0 and a stored integer is decoded to the
  boolean "not zero"; an object or array is encoded as its JSON text and the text of a
  \<open>json\<close> or \<open>jsonArray\<close> column is decoded by parsing it; a string or number is encoded
  and decoded unchanged; every cell of an encoded row is the encoding of the row's value
  at that column; a stored value that is neither NULL nor missing is decoded by the
  declared type of its column, and a declared type outside the five tags then fails with
  the unsupported-column-type error.
\<close>

theorem codec_rules:
  "serializeValue sfy (Some (JBool b)) = SNum (if b then 1 else 0)
   \<and> decodeValue prs ''boolean'' (SNum n) = Inr (JBool (n \<noteq> 0))
   \<and> serializeValue sfy (Some (JObj kvs)) = SText (sfy (JObj kvs))
   \<and> serializeValue sfy (Some (JArr xs)) = SText (sfy (JArr xs))
   \<and> (ty1 \<in> {''json'', ''jsonArray''} \<longrightarrow>
        decodeValue prs ty1 (SText s) = (case prs s of None \<Rightarrow> Inl JsonSyntaxError | Some j \<Rightarrow> Inr j))
   \<and> serializeValue sfy (Some (JStr s)) = SText s
   \<and> serializeValue sfy (Some (JNum n)) = SNum n
   \<and> (ty2 \<in> {''string'', ''number''} \<longrightarrow>
        decodeValue prs ty2 (SText s) = Inr (JStr s) \<and> decodeValue prs ty2 (SNum n) = Inr (JNum n))
   \<and> (i < length (columns cfg) \<longrightarrow>
        serializeRow sfy logical cfg ! i = serializeValue sfy (map_of logical (key (columns cfg ! i))))
   \<and> (map_of r (addColumnSuffix (key col)) = Some val \<and> val \<noteq> SNull \<longrightarrow>
        parseColumns prs r (col # cols) acc =
          (case decodeValue prs (type col) val of
             Inl e \<Rightarrow> Inl e
           | Inr j \<Rightarrow> parseColumns prs r cols (AList.update (key col) j acc)))
   \<and> (type col \<notin> {''boolean'', ''json'', ''jsonArray'', ''string'', ''number''}
        \<and> map_of r (addColumnSuffix (key col)) = Some val \<and> val \<noteq> SNull \<longrightarrow>
        parseColumns prs r (col # cols) acc = Inl (UnsupportedColumnType (type col)))"
proof -
  have step: "parseColumns prs r (col # cols) acc =
          (case decodeValue prs (type col) val of
             Inl e \<Rightarrow> Inl e
           | Inr j \<Rightarrow> parseColumns prs r cols (AList.update (key col) j acc))"
    if "map_of r (addColumnSuffix (key col)) = Some val" "val \<noteq> SNull"
    using that by (cases val) simp_all
  have bad: "decodeValue prs (type col) val = Inl (UnsupportedColumnType (type col))"
    if "type col \<notin> {''boolean'', ''json'', ''jsonArray'', ''string'', ''number''}"
    using that by (simp add: decodeValue_def)
  have dec1: "decodeValue prs ty1 (SText s) = (case prs s of None \<Rightarrow> Inl JsonSyntaxError | Some j \<Rightarrow> Inr j)"
    if "ty1 \<in> {''json'', ''jsonArray''}"
    using that by (auto simp: decodeValue_def)
  have dec2: "decodeValue prs ty2 (SText s) = Inr (JStr s) \<and> decodeValue prs ty2 (SNum n) = Inr (JNum n)"
    if "ty2 \<in> {''string'', ''number''}"
    using that by (auto simp: decodeValue_def)
  have enc: "serializeRow sfy logical cfg ! i = serializeValue sfy (map_of logical (key (columns cfg ! i)))"
    if "i < length (columns cfg)"
    using that by (simp add: serializeRow_def)
  have b: "decodeValue prs ''boolean'' (SNum n) = Inr (JBool (n \<noteq> 0))"
    by (simp add: decodeValue_def)
  show ?thesis
    using step bad dec1 dec2 enc b by simp
qed

text \<open>The rules at a table with one column of the unknown type \<open>date\<close> holding a text.\<close>

theorem codec_rules_witness:
  "''json'' \<in> {''json'', ''jsonArray''} \<and> ''number'' \<in> {''string'', ''number''}
   \<and> 0 < length (columns \<lparr>tkey = ''t'', ttype = ''t'', columns = [\<lparr>key = ''x'', type = ''date''\<rparr>], thash = []\<rparr>)
   \<and> type \<lparr>key = ''x'', type = ''date''\<rparr> \<notin> {''boolean'', ''json'', ''jsonArray'', ''string'', ''number''}
   \<and> map_of [(''x_col'', SText ''2026'')] (addColumnSuffix (key \<lparr>key = ''x'', type = ''date''\<rparr>)) = Some (SText ''2026'')
   \<and> SText ''2026'' \<noteq> SNull
   \<and> parseColumns (\<lambda>s. None) [(''x_col'', SText ''2026'')] [\<lparr>key = ''x'', type = ''date''\<rparr>] []
       = Inl (UnsupportedColumnType ''date'')
   \<and> decodeValue (\<lambda>s. None) ''number'' (SNum 7) = Inr (JNum 7)
   \<and> serializeRow (\<lambda>j. []) [(''x'', JBool True)]
        \<lparr>tkey = ''t'', ttype = ''t'', columns = [\<lparr>key = ''x'', type = ''date''\<rparr>], thash = []\<rparr> ! 0 = SNum 1"
  using codec_rules [of "\<lambda>j. []" True "\<lambda>s. None" 7 "[]" "[]" "''json''" "''2026''" "''number''" 0
      "\<lparr>tkey = ''t'', ttype = ''t'', columns = [\<lparr>key = ''x'', type = ''date''\<rparr>], thash = []\<rparr>"
      "[(''x'', JBool True)]" "[(''x_col'', SText ''2026'')]" "\<lparr>key = ''x'', type = ''date''\<rparr>"
      "SText ''2026''" "[]" "[]"]
  by (simp add: addColumnSuffix_def)

text \<open>
  C7 as stated fails: a column of the unknown type \<open>date\<close> whose stored value is NULL is
  decoded without an error; the key is left out of the row.
\<close>

theorem unsupported_type_null_counterexample:
  "parseData (\<lambda>s. None) [[(''x_col'', SNull)]]
     \<lparr>tkey = ''t'', ttype = ''t'', columns = [\<lparr>key = ''x'', type = ''date''\<rparr>], thash = []\<rparr> = Inr [[]]"
  by (simp add: parseData_def addColumnSuffix_def)

subsection \<open>Transactions of the wrapper\<close>




subsection \<open>Reading back: row count, dump and filtered read\<close>

lemma sortTableDataAndUpdateHash_empty:
  "t_data t = [] \<Longrightarrow> t_data (sortTableDataAndUpdateHash env t) = []"
  by (simp add: sortTableDataAndUpdateHash_def Let_def)

text \<open>
  C5: on an existing table \<open>rowCount\<close> returns 0, however many rows the table holds:
  the count is looked for under \<open>values\<close> in the first result row, where the engine
  has put it under the name of the counting expression. (The claim asks for the number
  of stored rows.)
\<close>

theorem rowCount_returns_zero:
  assumes "tableExists d t"
  shows "rowCount (sqlAll sfy) env d t = Inr (Some 0)"
proof -
  from assms obtain pt where pt: "map_of (ptables d) (addTableSuffix t) = Some pt"
    by (auto simp: tableExists_def)
  have "countRaw [[(''COUNT(*)'', SNum (int (length (prows pt))))]] = SNum 0"
    by (simp add: countRaw_def)
  then show ?thesis
    using assms pt by (simp add: rowCount_def throwWhenTableDoesNotExist_def)
qed

text \<open>
  The scenario: two rows are written to the empty table \<open>users\<close>, the table holds two
  rows and \<open>rowCount\<close> returns 0.
\<close>

theorem rowCount_returns_zero_witness:
  "writeRljson sqlRun exampleEnv
      (usersDb\<lparr>ptables := [(''users_tbl'', \<lparr>pcols = [''_hash_col'', ''id_col'', ''name_col''],
                                             pkey = Some ''_hash_col'', prows = []\<rparr>)]\<rparr>) twoUsers
     = (Inr (), usersDb)
   \<and> tableExists usersDb ''users''
   \<and> map_option (\<lambda>pt. length (prows pt)) (map_of (ptables usersDb) ''users_tbl'') = Some 2
   \<and> rowCount (sqlAll (stringify exampleEnv)) exampleEnv usersDb ''users'' = Inr (Some 0)"
proof -
  have written: "writeRljson sqlRun exampleEnv
      (usersDb\<lparr>ptables := [(''users_tbl'', \<lparr>pcols = [''_hash_col'', ''id_col'', ''name_col''],
                                             pkey = Some ''_hash_col'', prows = []\<rparr>)]\<rparr>) twoUsers
     = (Inr (), usersDb)"
    by (simp add: writeRljson_def hshData_def twoUsers_def throwWhenTablesDoNotExist_def tableExists_def
      throwWhenTableDataDoesNotMatchCfg_def activeCfg_def usersDb_def usersCfg_def alice_def bob_def
      exampleEnv_def insertStmt_def serializeRow_def sqlInsertOrIgnore_def collides_def cell_def
      addTableSuffix_def addColumnSuffix_def Let_def)
  have ex: "tableExists usersDb ''users''"
    by (simp add: tableExists_def usersDb_def addTableSuffix_def)
  show ?thesis
    using written ex rowCount_returns_zero [OF ex, of "stringify exampleEnv" exampleEnv]
    by (simp add: usersDb_def)
qed

text \<open>
  C1: for an existing, registered table whose rows the engine returns as objects of SQL
  values, \<open>dumpTable\<close> succeeds with an empty list of rows: \<open>convertToReturn\<close>
  finds no array under \<open>values\<close> and \<open>columns\<close> in the first row and returns
  nothing. (The claim asks for the written rows.)
\<close>

theorem dumpTable_returns_no_rows:
  assumes "tableExists d t"
    and "activeCfg (registry d) t = Some cfg"
    and "all d (SelectAll (addTableSuffix t) (map (\<lambda>col. addColumnSuffix (key col)) (columns cfg))) = Inr rs"
    and "sql_result rs"
  shows "\<exists>tbl. dumpTable all env d t = Inr (t, tbl) \<and> t_data tbl = []"
  using assms convertToReturn_sql_result [OF assms(4)]
  by (simp add: dumpTable_def throwWhenTableDoesNotExist_def parseData_def sortTableDataAndUpdateHash_empty)

text \<open>
  The scenario: the engine returns the two rows of \<open>users\<close>; the dump has none.
\<close>

theorem dumpTable_returns_no_rows_witness:
  "tableExists usersDb ''users''
   \<and> activeCfg (registry usersDb) ''users'' = Some usersCfg
   \<and> sqlAll (stringify exampleEnv) usersDb
        (SelectAll (addTableSuffix ''users'') (map (\<lambda>col. addColumnSuffix (key col)) (columns usersCfg)))
      = Inr [[(''_hash_col'', SText ''h1''), (''id_col'', SNum 1), (''name_col'', SText ''Alice'')],
             [(''_hash_col'', SText ''h2''), (''id_col'', SNum 2), (''name_col'', SText ''Bob'')]]
   \<and> sql_result [[(''_hash_col'', SText ''h1''), (''id_col'', SNum 1), (''name_col'', SText ''Alice'')],
                  [(''_hash_col'', SText ''h2''), (''id_col'', SNum 2), (''name_col'', SText ''Bob'')]]
   \<and> (\<exists>tbl. dumpTable (sqlAll (stringify exampleEnv)) exampleEnv usersDb ''users'' = Inr (''users'', tbl)
          \<and> t_data tbl = [])"
proof -
  have a: "tableExists usersDb ''users''"
    by (simp add: tableExists_def usersDb_def addTableSuffix_def)
  have b: "activeCfg (registry usersDb) ''users'' = Some usersCfg"
    by (simp add: activeCfg_def usersDb_def usersCfg_def)
  have c: "sqlAll (stringify exampleEnv) usersDb
        (SelectAll (addTableSuffix ''users'') (map (\<lambda>col. addColumnSuffix (key col)) (columns usersCfg)))
      = Inr [[(''_hash_col'', SText ''h1''), (''id_col'', SNum 1), (''name_col'', SText ''Alice'')],
             [(''_hash_col'', SText ''h2''), (''id_col'', SNum 2), (''name_col'', SText ''Bob'')]]"
    by (simp add: usersDb_def usersCfg_def addTableSuffix_def addColumnSuffix_def cell_def)
  have e: "sql_result [[(''_hash_col'', SText ''h1''), (''id_col'', SNum 1), (''name_col'', SText ''Alice'')],
                  [(''_hash_col'', SText ''h2''), (''id_col'', SNum 2), (''name_col'', SText ''Bob'')]]"
    by (simp add: sql_result_def)
  show ?thesis
    using a b c e dumpTable_returns_no_rows [where all = "sqlAll (stringify exampleEnv)" and env = exampleEnv, OF a b c e] by simp
qed

text \<open>
  C9: for an existing table and a filter on columns of its schema, whatever rows the
  engine returns for the statement, \<open>readRows\<close> succeeds with an empty list of rows.
  (The claim asks for the stored rows that match the filter.)
\<close>

theorem readRows_returns_no_rows:
  assumes "tableExists d t"
    and "throwWhenColumnDoesNotExist d t (map fst wh) = Inr ()"
    and "all d (SelectWhere (addTableSuffix t) wh) = Inr rs"
    and "sql_result rs"
  shows "\<exists>tbl. readRows all env d t wh = Inr (t, tbl) \<and> t_data tbl = []"
proof -
  from assms(2) obtain cfg where cfg: "activeCfg (registry d) t = Some cfg"
    by (auto simp: throwWhenColumnDoesNotExist_def split: option.splits)
  show ?thesis
    using assms cfg convertToReturn_sql_result [OF assms(4)]
    by (simp add: readRows_def throwWhenTableDoesNotExist_def parseData_def sortTableDataAndUpdateHash_empty)
qed

text \<open>
  The scenario: the engine returns the row of Alice for the filter \<open>name = Alice\<close>;
  the table read has no row.
\<close>

theorem readRows_returns_no_rows_witness:
  "tableExists usersDb ''users''
   \<and> throwWhenColumnDoesNotExist usersDb ''users'' (map fst [(''name'', JStr ''Alice'')]) = Inr ()
   \<and> sqlAll (stringify exampleEnv) usersDb (SelectWhere (addTableSuffix ''users'') [(''name'', JStr ''Alice'')])
      = Inr [[(''_hash_col'', SText ''h1''), (''id_col'', SNum 1), (''name_col'', SText ''Alice'')]]
   \<and> sql_result [[(''_hash_col'', SText ''h1''), (''id_col'', SNum 1), (''name_col'', SText ''Alice'')]]
   \<and> (\<exists>tbl. readRows (sqlAll (stringify exampleEnv)) exampleEnv usersDb ''users'' [(''name'', JStr ''Alice'')]
               = Inr (''users'', tbl) \<and> t_data tbl = [])"
proof -
  have a: "tableExists usersDb ''users''"
    by (simp add: tableExists_def usersDb_def addTableSuffix_def)
  have b: "throwWhenColumnDoesNotExist usersDb ''users'' (map fst [(''name'', JStr ''Alice'')]) = Inr ()"
    by (simp add: throwWhenColumnDoesNotExist_def activeCfg_def usersDb_def usersCfg_def)
  have c: "sqlAll (stringify exampleEnv) usersDb (SelectWhere (addTableSuffix ''users'') [(''name'', JStr ''Alice'')])
      = Inr [[(''_hash_col'', SText ''h1''), (''id_col'', SNum 1), (''name_col'', SText ''Alice'')]]"
    by (simp add: usersDb_def addTableSuffix_def addColumnSuffix_def cell_def rowMatches_def)
  have e: "sql_result [[(''_hash_col'', SText ''h1''), (''id_col'', SNum 1), (''name_col'', SText ''Alice'')]]"
    by (simp add: sql_result_def)
  show ?thesis
    using a b c e readRows_returns_no_rows [where all = "sqlAll (stringify exampleEnv)" and env = exampleEnv, OF a b c e] by simp
qed

subsection \<open>Sparse rows\<close>







subsection \<open>Writing: accumulation of errors\<close>

lemma writeRows_fold:
  assumes "\<forall>d s p code msg. run d s p = Inl (code, msg) \<longrightarrow> code \<noteq> ''SQLITE_CONSTRAINT_PRIMARYKEY''"
  shows "writeRows run env name cfg rows acc = foldl (attemptRow run env name cfg) acc rows"
proof (induction rows arbitrary: acc)
  case Nil
  then show ?case by (cases acc) simp
next
  case (Cons r rows)
  obtain d errs where acc: "acc = (d, errs)" by (cases acc)
  show ?case
  proof (cases "run d (insertStmt name cfg) (serializeRow (stringify env) r cfg)")
    case (Inl e)
    obtain code msg where e: "e = (code, msg)" by (cases e)
    with Inl assms have "code \<noteq> ''SQLITE_CONSTRAINT_PRIMARYKEY''" by blast
    then show ?thesis
      using Inl e acc Cons.IH by (simp add: attemptRow_def)
  next
    case (Inr d')
    then show ?thesis
      using acc Cons.IH by (simp add: attemptRow_def)
  qed
qed

lemma attemptRow_registry:
  assumes "\<forall>d s p d'. run d s p = Inr d' \<longrightarrow> registry d' = registry d"
  shows "registry (fst (attemptRow run env name cfg acc r)) = registry (fst acc)"
  using assms by (auto simp: attemptRow_def split: sum.splits)

lemma attemptRows_registry:
  assumes "\<forall>d s p d'. run d s p = Inr d' \<longrightarrow> registry d' = registry d"
  shows "registry (fst (foldl (attemptRow run env name cfg) acc rows)) = registry (fst acc)"
  by (induction rows arbitrary: acc) (simp_all add: attemptRow_registry [OF assms])

lemma writeTables_fold:
  assumes noPK: "\<forall>d s p code msg. run d s p = Inl (code, msg) \<longrightarrow> code \<noteq> ''SQLITE_CONSTRAINT_PRIMARYKEY''"
    and reg: "\<forall>d s p d'. run d s p = Inr d' \<longrightarrow> registry d' = registry d"
  shows "\<forall>(name, tbl)\<in>set data. activeCfg (registry d) name \<noteq> None \<Longrightarrow>
     writeTables run env data (d, errs) = (None, attemptAll run env (registry d) data (d, errs))"
proof (induction data arbitrary: d errs)
  case Nil
  then show ?case by (simp add: attemptAll_def)
next
  case (Cons a data)
  obtain name tbl where a: "a = (name, tbl)" by (cases a)
  from Cons.prems a obtain cfg where cfg: "activeCfg (registry d) name = Some cfg" by auto
  let ?acc = "foldl (attemptRow run env name cfg) (d, errs) (t_data tbl)"
  obtain d1 errs1 where acc: "?acc = (d1, errs1)" by (cases ?acc)
  have r1: "registry d1 = registry d"
    using attemptRows_registry [OF reg, of env name cfg "(d, errs)" "t_data tbl"] acc by simp
  have "\<forall>(name, tbl)\<in>set data. activeCfg (registry d1) name \<noteq> None"
    using Cons.prems r1 by simp
  from Cons.IH [OF this, of errs1]
  show ?case
    using a cfg acc r1 by (simp add: writeRows_fold [OF noPK] attemptAll_def)
qed

lemma matchCfg_registered:
  assumes "throwWhenTableDataDoesNotMatchCfg d data = Inr ()"
  shows "\<forall>(name, tbl)\<in>set data. activeCfg (registry d) name \<noteq> None"
proof -
  let ?f = "\<lambda>(t, tbl). case activeCfg (registry d) t of
                None \<Rightarrow> [TableNotFound t]
              | Some cfg \<Rightarrow>
                  map ColumnNotFound
                    (filter (\<lambda>c. c \<notin> set (map key (columns cfg))) (concat (map (map fst) (t_data tbl))))"
  from assms have "concat (map ?f data) = []"
    by (simp add: throwWhenTableDataDoesNotMatchCfg_def split: list.splits)
  then have "\<forall>x\<in>set data. ?f x = []" by simp
  then show ?thesis by (auto split: option.splits)
qed

lemma hshData_names:
  "(\<forall>(name, tbl)\<in>set (hshData env data). P name) = (\<forall>(name, tbl)\<in>set data. P name)"
  by (auto simp: hshData_def)

text \<open>
  C3: for an engine that raises no error with the code of a primary key collision (such
  collisions are ignored by the statement) and whose inserts leave the registry alone,
  a request that passes the two guards is written as the fold of the spec: every row of
  every table is attempted, in order, on the state left by the rows before it; the
  messages of the failed rows are collected in order; the state returned holds every
  successful insert, before or after a failure; and the call fails, once and at the end,
  exactly when a message was collected, with all messages joined in one error.
\<close>

theorem write_accumulates_errors:
  assumes "\<forall>d s p code msg. run d s p = Inl (code, msg) \<longrightarrow> code \<noteq> ''SQLITE_CONSTRAINT_PRIMARYKEY''"
    and "\<forall>d s p d'. run d s p = Inr d' \<longrightarrow> registry d' = registry d"
    and "throwWhenTablesDoNotExist d data = Inr ()"
    and "throwWhenTableDataDoesNotMatchCfg d data = Inr ()"
  shows "writeRljson run env d data =
     (case attemptAll run env (registry d) (hshData env data) (d, []) of
        (d', errs) \<Rightarrow>
          (if errs = [] then Inr () else Inl (WriteErrors (''Errors occurred: '' @ join '', '' errs)), d'))"
proof -
  have "\<forall>(name, tbl)\<in>set (hshData env data). activeCfg (registry d) name \<noteq> None"
    using matchCfg_registered [OF assms(4)] by (simp add: hshData_names)
  from writeTables_fold [OF assms(1,2) this, of env "[]"]
  show ?thesis
    using assms(3,4) by (simp add: writeRljson_def split: prod.splits)
qed


lemma sqlRun_code: "sqlRun d s p = Inl (code, msg) \<Longrightarrow> code = ''ERR_SQLITE_ERROR''"
  by (cases s)
    (auto simp: sqlInsertOrIgnore_def sqlInsertTableCfg_def sqlCreateTable_def sqlAddColumn_def Let_def
      split: option.splits list.splits if_splits)

lemma sqlRun_registry: "sqlRun d s p = Inr d' \<Longrightarrow> registry d' = registry d"
  by (cases s)
    (auto simp: sqlInsertOrIgnore_def sqlInsertTableCfg_def sqlCreateTable_def sqlAddColumn_def Let_def
      split: option.splits list.splits if_splits)


text \<open>
  Two users and a tag written to the state whose table \<open>users\<close> lacks a column:
  both users fail, the tag written after them is stored, and the error lists both
  failures.
\<close>

theorem write_accumulates_errors_witness:
  "throwWhenTablesDoNotExist staleDb usersAndTags = Inr ()
   \<and> throwWhenTableDataDoesNotMatchCfg staleDb usersAndTags = Inr ()
   \<and> writeRljson sqlRun exampleEnv staleDb usersAndTags =
       (Inl (WriteErrors (''Errors occurred: ''
              @ ''Error inserting into table users: table users_tbl has no column named email_col''
              @ '', ''
              @ ''Error inserting into table users: table users_tbl has no column named email_col'')),
        staleDb\<lparr>ptables := [(''users_tbl'', \<lparr>pcols = [''_hash_col'', ''id_col'', ''name_col''],
                                              pkey = Some ''_hash_col'', prows = []\<rparr>),
                             (''tags_tbl'', \<lparr>pcols = [''_hash_col'', ''label_col''],
                                             pkey = Some ''_hash_col'',
                                             prows = [[SText ''h3'', SText ''new'']]\<rparr>)]\<rparr>)"
proof -
  have noPK: "\<forall>d s p code msg. sqlRun d s p = Inl (code, msg) \<longrightarrow> code \<noteq> ''SQLITE_CONSTRAINT_PRIMARYKEY''"
    using sqlRun_code by fastforce
  have reg: "\<forall>d s p d'. sqlRun d s p = Inr d' \<longrightarrow> registry d' = registry d"
    using sqlRun_registry by blast
  have ok1: "throwWhenTablesDoNotExist staleDb usersAndTags = Inr ()"
    by (simp add: throwWhenTablesDoNotExist_def tableExists_def staleDb_def usersAndTags_def
        twoUsers_def addTableSuffix_def)
  have ok2: "throwWhenTableDataDoesNotMatchCfg staleDb usersAndTags = Inr ()"
    by (simp add: throwWhenTableDataDoesNotMatchCfg_def activeCfg_def staleDb_def usersAndTags_def
        twoUsers_def usersCfg_def alice_def bob_def)
  have run: "attemptAll sqlRun exampleEnv (registry staleDb) (hshData exampleEnv usersAndTags) (staleDb, []) =
      (staleDb\<lparr>ptables := [(''users_tbl'', \<lparr>pcols = [''_hash_col'', ''id_col'', ''name_col''],
                                              pkey = Some ''_hash_col'', prows = []\<rparr>),
                             (''tags_tbl'', \<lparr>pcols = [''_hash_col'', ''label_col''],
                                             pkey = Some ''_hash_col'',
                                             prows = [[SText ''h3'', SText ''new'']]\<rparr>)]\<rparr>,
       [''Error inserting into table users: table users_tbl has no column named email_col'',
        ''Error inserting into table users: table users_tbl has no column named email_col''])"
    by (simp add: attemptAll_def attemptRow_def hshData_def usersAndTags_def twoUsers_def staleDb_def
        activeCfg_def usersCfg_def alice_def bob_def exampleEnv_def insertStmt_def serializeRow_def
        sqlInsertOrIgnore_def collides_def cell_def errorLine_def addTableSuffix_def addColumnSuffix_def
        Let_def)
  show ?thesis
    using write_accumulates_errors [where run = sqlRun and env = exampleEnv, OF noPK reg ok1 ok2]
      ok1 ok2 run
    by simp
qed

subsection \<open>Writing twice\<close>

lemma grown_refl: "grown a a"
  by (auto simp: grown_def split: option.splits)

lemma grown_trans: "grown a b \<Longrightarrow> grown b c \<Longrightarrow> grown a c"
  unfolding grown_def
  apply (intro conjI allI)
   apply simp
  subgoal for t
    apply (erule conjE)+
    apply (erule_tac x = t in allE)+
    apply (auto split: option.splits)
    done
  done

lemma grown_Some:
  "grown a b \<Longrightarrow> map_of (ptables a) t = Some pa \<Longrightarrow>
     \<exists>pb. map_of (ptables b) t = Some pb \<and> pcols pb = pcols pa \<and> pkey pb = pkey pa
          \<and> set (prows pa) \<subseteq> set (prows pb)"
  unfolding grown_def by (erule conjE, erule_tac x = t in allE) simp

lemma grown_None: "grown a b \<Longrightarrow> map_of (ptables a) t = None \<Longrightarrow> map_of (ptables b) t = None"
  unfolding grown_def by (erule conjE, erule_tac x = t in allE) simp

lemma insert_grown:
  assumes "sqlInsertOrIgnore s t cols vals = Inr s'"
  shows "grown s s'"
proof -
  from assms obtain pt where pt: "map_of (ptables s) t = Some pt"
    by (auto simp: sqlInsertOrIgnore_def split: option.splits)
  let ?new = "map (cell cols vals) (pcols pt)"
  show ?thesis
  proof (cases "collides pt ?new")
    case True
    with assms pt have "s' = s"
      by (auto simp: sqlInsertOrIgnore_def Let_def split: list.splits)
    then show ?thesis by (simp add: grown_refl)
  next
    case False
    with assms pt have s': "s' = s\<lparr>ptables := AList.update t (pt\<lparr>prows := prows pt @ [?new]\<rparr>) (ptables s)\<rparr>"
      by (auto simp: sqlInsertOrIgnore_def Let_def split: list.splits)
    show ?thesis
      unfolding grown_def s' using pt
      by (auto simp: update_conv' split: option.splits)
  qed
qed

lemma insert_error_grown:
  assumes "sqlInsertOrIgnore s t cols vals = Inl e" and "grown s D"
  shows "sqlInsertOrIgnore D t cols vals = Inl e"
proof (cases "map_of (ptables s) t")
  case None
  with assms show ?thesis
    using grown_None [OF assms(2) None] by (simp add: sqlInsertOrIgnore_def)
next
  case (Some pt)
  from grown_Some [OF assms(2) Some] obtain pb where
    pb: "map_of (ptables D) t = Some pb" "pcols pb = pcols pt" by blast
  from assms(1) Some have "filter (\<lambda>c. c \<notin> set (pcols pt)) cols \<noteq> []"
    by (auto simp: sqlInsertOrIgnore_def Let_def split: list.splits if_splits)
  then show ?thesis
    using assms(1) Some pb by (auto simp: sqlInsertOrIgnore_def Let_def split: list.splits)
qed

lemma insert_absorbed:
  assumes ins: "sqlInsertOrIgnore s t cols vals = Inr s'"
    and g: "grown s' D"
    and pt: "map_of (ptables s) t = Some pt"
    and pk: "pkey pt = Some k"
    and nn: "cell (pcols pt) (map (cell cols vals) (pcols pt)) k \<noteq> SNull"
  shows "sqlInsertOrIgnore D t cols vals = Inr D"
proof -
  let ?new = "map (cell cols vals) (pcols pt)"
  from ins pt have f: "filter (\<lambda>c. c \<notin> set (pcols pt)) cols = []"
    by (auto simp: sqlInsertOrIgnore_def Let_def split: list.splits)
  have "\<exists>p'. map_of (ptables s') t = Some p' \<and> pcols p' = pcols pt \<and> pkey p' = pkey pt
          \<and> (\<exists>r\<in>set (prows p'). cell (pcols pt) r k = cell (pcols pt) ?new k)"
  proof (cases "collides pt ?new")
    case True
    with ins pt f have "s' = s"
      by (auto simp: sqlInsertOrIgnore_def Let_def split: list.splits)
    moreover from True pk have "\<exists>r\<in>set (prows pt). cell (pcols pt) r k = cell (pcols pt) ?new k"
      by (auto simp: collides_def list_ex_iff)
    ultimately show ?thesis using pt by auto
  next
    case False
    with ins pt f have "s' = s\<lparr>ptables := AList.update t (pt\<lparr>prows := prows pt @ [?new]\<rparr>) (ptables s)\<rparr>"
      by (auto simp: sqlInsertOrIgnore_def Let_def split: list.splits)
    then show ?thesis by (auto simp: update_conv')
  qed
  then obtain p' r where p': "map_of (ptables s') t = Some p'" "pcols p' = pcols pt" "pkey p' = pkey pt"
    and r: "r \<in> set (prows p')" "cell (pcols pt) r k = cell (pcols pt) ?new k" by blast
  from grown_Some [OF g p'(1)] obtain pb where
    pb: "map_of (ptables D) t = Some pb" "pcols pb = pcols p'" "pkey pb = pkey p'"
      "set (prows p') \<subseteq> set (prows pb)" by blast
  have "collides pb (map (cell cols vals) (pcols pb))"
    using pb p' pk nn r by (auto simp: collides_def list_ex_iff)
  then show ?thesis
    using pb p' f by (simp add: sqlInsertOrIgnore_def Let_def)
qed


lemma keyed_grown: "grown a b \<Longrightarrow> keyed a env name cfg rows \<Longrightarrow> keyed b env name cfg rows"
proof (cases "map_of (ptables a) (addTableSuffix name)")
  case None
  assume "grown a b"
  from grown_None [OF this None] show ?thesis by (simp add: keyed_def)
next
  case (Some pa)
  assume g: "grown a b" and k: "keyed a env name cfg rows"
  from grown_Some [OF g Some] obtain pb where
    "map_of (ptables b) (addTableSuffix name) = Some pb" "pcols pb = pcols pa" "pkey pb = pkey pa"
    by blast
  with k Some show ?thesis by (auto simp: keyed_def split: option.splits)
qed

lemma keyed_Cons: "keyed s env name cfg (r # rows) \<Longrightarrow> keyed s env name cfg rows"
  by (auto simp: keyed_def split: option.splits)

lemma keyed_head:
  "keyed s env name cfg (r # rows) \<Longrightarrow> map_of (ptables s) (addTableSuffix name) = Some pt \<Longrightarrow>
     \<exists>k. pkey pt = Some k \<and>
         cell (pcols pt) (map (cell (map (\<lambda>col. addColumnSuffix (key col)) (columns cfg))
                                    (serializeRow (stringify env) r cfg)) (pcols pt)) k \<noteq> SNull"
  by (auto simp: keyed_def split: option.splits)

lemma sqlRun_insertStmt:
  "sqlRun s (insertStmt name cfg) vals =
     sqlInsertOrIgnore s (addTableSuffix name) (map (\<lambda>col. addColumnSuffix (key col)) (columns cfg)) vals"
  by (simp add: insertStmt_def)

lemma sqlInsertOrIgnore_code: "sqlInsertOrIgnore d t cols vals = Inl (code, msg) \<Longrightarrow> code = ''ERR_SQLITE_ERROR''"
  by (auto simp: sqlInsertOrIgnore_def Let_def split: option.splits list.splits if_splits)

lemma writeRows_grown:
  "writeRows sqlRun env name cfg rows (s, errs) = (s1, errs1) \<Longrightarrow> grown s s1"
proof (induction rows arbitrary: s errs)
  case Nil
  then show ?case by (simp add: grown_refl)
next
  case (Cons r rows)
  let ?run = "sqlInsertOrIgnore s (addTableSuffix name) (map (\<lambda>col. addColumnSuffix (key col)) (columns cfg))
                (serializeRow (stringify env) r cfg)"
  show ?case
  proof (cases ?run)
    case (Inl e)
    obtain code msg where e: "e = (code, msg)" by (cases e)
    from sqlInsertOrIgnore_code Inl e have "code \<noteq> ''SQLITE_CONSTRAINT_PRIMARYKEY''" by fastforce
    with Cons.prems Inl e
    have "writeRows sqlRun env name cfg rows (s, errs @ [errorLine name msg]) = (s1, errs1)"
      by (simp add: sqlRun_insertStmt)
    from Cons.IH [OF this] show ?thesis .
  next
    case (Inr s')
    with Cons.prems have "writeRows sqlRun env name cfg rows (s', errs) = (s1, errs1)"
      by (simp add: sqlRun_insertStmt)
    from Cons.IH [OF this] insert_grown [OF Inr] show ?thesis
      by (rule grown_trans [rotated])
  qed
qed

lemma writeRows_second:
  "writeRows sqlRun env name cfg rows (s, errs) = (s1, errs1) \<Longrightarrow> grown s1 D \<Longrightarrow>
   keyed s env name cfg rows \<Longrightarrow>
   \<exists>new. errs1 = errs @ new \<and> writeRows sqlRun env name cfg rows (D, errsD) = (D, errsD @ new)"
proof (induction rows arbitrary: s errs errsD)
  case Nil
  then show ?case by simp
next
  case (Cons r rows)
  let ?cols = "map (\<lambda>col. addColumnSuffix (key col)) (columns cfg)"
  let ?vals = "serializeRow (stringify env) r cfg"
  let ?run = "sqlInsertOrIgnore s (addTableSuffix name) ?cols ?vals"
  show ?case
  proof (cases ?run)
    case (Inl e)
    obtain code msg where e: "e = (code, msg)" by (cases e)
    from sqlInsertOrIgnore_code Inl e have code: "code \<noteq> ''SQLITE_CONSTRAINT_PRIMARYKEY''" by fastforce
    with Cons.prems(1) Inl e
    have rest: "writeRows sqlRun env name cfg rows (s, errs @ [errorLine name msg]) = (s1, errs1)"
      by (simp add: sqlRun_insertStmt)
    have "grown s D" using writeRows_grown [OF rest] Cons.prems(2) by (rule grown_trans)
    from insert_error_grown [OF Inl this]
    have runD: "sqlInsertOrIgnore D (addTableSuffix name) ?cols ?vals = Inl e" .
    from Cons.IH [OF rest Cons.prems(2) keyed_Cons [OF Cons.prems(3)], of "errsD @ [errorLine name msg]"]
    obtain new where new: "errs1 = (errs @ [errorLine name msg]) @ new"
      "writeRows sqlRun env name cfg rows (D, errsD @ [errorLine name msg]) = (D, (errsD @ [errorLine name msg]) @ new)"
      by blast
    have "writeRows sqlRun env name cfg (r # rows) (D, errsD) = (D, errsD @ (errorLine name msg # new))"
      using runD e code new(2) by (simp add: sqlRun_insertStmt)
    moreover have "errs1 = errs @ (errorLine name msg # new)" using new(1) by simp
    ultimately show ?thesis by blast
  next
    case (Inr s')
    with Cons.prems(1) have rest: "writeRows sqlRun env name cfg rows (s', errs) = (s1, errs1)"
      by (simp add: sqlRun_insertStmt)
    from Inr obtain pt where pt: "map_of (ptables s) (addTableSuffix name) = Some pt"
      by (auto simp: sqlInsertOrIgnore_def split: option.splits)
    from keyed_head [OF Cons.prems(3) pt] obtain k where
      k: "pkey pt = Some k" "cell (pcols pt) (map (cell ?cols ?vals) (pcols pt)) k \<noteq> SNull" by blast
    have gD: "grown s' D" using writeRows_grown [OF rest] Cons.prems(2) by (rule grown_trans)
    from insert_absorbed [OF Inr gD pt k]
    have runD: "sqlInsertOrIgnore D (addTableSuffix name) ?cols ?vals = Inr D" .
    have "keyed s' env name cfg rows"
      using keyed_grown [OF insert_grown [OF Inr] keyed_Cons [OF Cons.prems(3)]] .
    from Cons.IH [OF rest Cons.prems(2) this, of errsD]
    obtain new where new: "errs1 = errs @ new"
      "writeRows sqlRun env name cfg rows (D, errsD) = (D, errsD @ new)" by blast
    have "writeRows sqlRun env name cfg (r # rows) (D, errsD) = (D, errsD @ new)"
      using runD new(2) by (simp add: sqlRun_insertStmt)
    with new(1) show ?thesis by blast
  qed
qed


lemma grown_registry: "grown a b \<Longrightarrow> registry b = registry a"
  by (simp add: grown_def)

lemma grown_tableExists: "grown a b \<Longrightarrow> tableExists b t = tableExists a t"
proof (cases "map_of (ptables a) (addTableSuffix t)")
  case None
  assume "grown a b"
  from grown_None [OF this None] None show ?thesis by (simp add: tableExists_def)
next
  case (Some pa)
  assume "grown a b"
  from grown_Some [OF this Some] Some show ?thesis by (auto simp: tableExists_def)
qed

lemma requestKeyed_grown:
  assumes "grown a b" and "requestKeyed a env data"
  shows "requestKeyed b env data"
  using assms(2) keyed_grown [OF assms(1)] grown_registry [OF assms(1)]
  by (auto simp: requestKeyed_def list_all_iff split: option.splits)

lemma writeTables_grown:
  "writeTables sqlRun env data (s, errs) = (r, s1, errs1) \<Longrightarrow> grown s s1"
proof (induction data arbitrary: s errs)
  case Nil
  then show ?case by (simp add: grown_refl)
next
  case (Cons a data)
  obtain name tbl where a: "a = (name, tbl)" by (cases a)
  show ?case
  proof (cases "activeCfg (registry s) name")
    case None
    with Cons.prems a show ?thesis by (simp add: grown_refl)
  next
    case (Some cfg)
    obtain s' errs' where w: "writeRows sqlRun env name cfg (t_data tbl) (s, errs) = (s', errs')"
      by (cases "writeRows sqlRun env name cfg (t_data tbl) (s, errs)")
    with Cons.prems a Some have "writeTables sqlRun env data (s', errs') = (r, s1, errs1)" by simp
    from writeRows_grown [OF w] Cons.IH [OF this] show ?thesis by (rule grown_trans)
  qed
qed

lemma writeTables_second:
  "writeTables sqlRun env data (s, errs) = (None, s1, errs1) \<Longrightarrow> grown s1 D \<Longrightarrow>
   requestKeyed s env data \<Longrightarrow>
   \<exists>new. errs1 = errs @ new \<and> writeTables sqlRun env data (D, errsD) = (None, D, errsD @ new)"
proof (induction data arbitrary: s errs errsD)
  case Nil
  then show ?case by simp
next
  case (Cons a data)
  obtain name tbl where a: "a = (name, tbl)" by (cases a)
  from Cons.prems(1) a obtain cfg where cfg: "activeCfg (registry s) name = Some cfg"
    by (cases "activeCfg (registry s) name") simp_all
  obtain s' errs' where w: "writeRows sqlRun env name cfg (t_data tbl) (s, errs) = (s', errs')"
    by (cases "writeRows sqlRun env name cfg (t_data tbl) (s, errs)")
  with Cons.prems(1) a cfg have rest: "writeTables sqlRun env data (s', errs') = (None, s1, errs1)"
    by simp
  have g1: "grown s s'" by (rule writeRows_grown [OF w])
  have g2: "grown s' D" using writeTables_grown [OF rest] Cons.prems(2) by (rule grown_trans)
  have gD: "grown s D" using g1 g2 by (rule grown_trans)
  have k: "keyed s env name cfg (t_data tbl)"
    using Cons.prems(3) a cfg by (simp add: requestKeyed_def)
  from writeRows_second [OF w g2 k, of errsD] obtain new1 where
    n1: "errs' = errs @ new1" "writeRows sqlRun env name cfg (t_data tbl) (D, errsD) = (D, errsD @ new1)"
    by blast
  have "requestKeyed s env data" using Cons.prems(3) by (simp add: requestKeyed_def)
  from requestKeyed_grown [OF g1 this] have "requestKeyed s' env data" .
  from Cons.IH [OF rest Cons.prems(2) this, of "errsD @ new1"] obtain new2 where
    n2: "errs1 = errs' @ new2"
      "writeTables sqlRun env data (D, errsD @ new1) = (None, D, (errsD @ new1) @ new2)" by blast
  have cfgD: "activeCfg (registry D) name = Some cfg"
    using cfg grown_registry [OF gD] by simp
  have "writeTables sqlRun env (a # data) (D, errsD) = (None, D, errsD @ (new1 @ new2))"
    using a cfgD n1(2) n2(2) by simp
  moreover have "errs1 = errs @ (new1 @ new2)" using n1(1) n2(1) by simp
  ultimately show ?case by blast
qed

lemma guards_grown:
  assumes "grown a b"
  shows "throwWhenTablesDoNotExist b data = throwWhenTablesDoNotExist a data"
    and "throwWhenTableDataDoesNotMatchCfg b data = throwWhenTableDataDoesNotMatchCfg a data"
  using grown_tableExists [OF assms] grown_registry [OF assms]
  by (simp_all add: throwWhenTablesDoNotExist_def throwWhenTableDataDoesNotMatchCfg_def)

text \<open>
  C2 (as amended): on the engine with \<open>INSERT OR IGNORE\<close>, when every table of the request has a
  primary key and every row a value for it, writing the request a second time leaves the
  state as the first write left it (the same rows, hence the same row count) and ends as
  the first write ended: a row whose key is stored already is skipped, it is not written
  again and it adds no error.
\<close>

theorem write_idempotent:
  assumes w: "writeRljson sqlRun env d data = (res, d1)"
    and k: "requestKeyed d env (hshData env data)"
  shows "writeRljson sqlRun env d1 data = (res, d1)"
proof (cases "throwWhenTablesDoNotExist d data")
  case (Inl e)
  with w have "d1 = d" by (simp add: writeRljson_def)
  with w show ?thesis by simp
next
  case ok1: (Inr u)
  show ?thesis
  proof (cases "throwWhenTableDataDoesNotMatchCfg d data")
    case (Inl e)
    with w ok1 have "d1 = d" by (simp add: writeRljson_def)
    with w show ?thesis by simp
  next
    case ok2: (Inr u')
    obtain r s1 errs1 where t: "writeTables sqlRun env (hshData env data) (d, []) = (r, s1, errs1)"
      by (cases "writeTables sqlRun env (hshData env data) (d, [])")
    have "\<forall>(name, tbl)\<in>set (hshData env data). activeCfg (registry d) name \<noteq> None"
      using matchCfg_registered [of d data] ok2 by (simp add: hshData_names)
    from writeTables_fold [OF _ _ this, of sqlRun env "[]"] sqlRun_code sqlRun_registry t
    have r: "r = None" by fastforce
    from w ok1 ok2 t r have d1: "d1 = s1"
      and res: "res = (if length errs1 > 0 then Inl (WriteErrors (''Errors occurred: '' @ join '', '' errs1)) else Inr ())"
      by (auto simp: writeRljson_def split: if_splits)
    have g: "grown d d1" using writeTables_grown [OF t] d1 by simp
    from writeTables_second [OF t [unfolded r] _ k, of d1 "[]"] d1 obtain new where
      new: "errs1 = new" "writeTables sqlRun env (hshData env data) (d1, []) = (None, d1, new)"
      by (auto simp: grown_refl)
    show ?thesis
      using ok1 ok2 guards_grown [OF g, of data] new res
      by (simp add: writeRljson_def)
  qed
qed


text \<open>
  The scenario: the two users are written to the empty table and then written again.
\<close>

theorem write_idempotent_witness:
  "requestKeyed (usersDb\<lparr>ptables := [(''users_tbl'', \<lparr>pcols = [''_hash_col'', ''id_col'', ''name_col''],
                                                      pkey = Some ''_hash_col'', prows = []\<rparr>)]\<rparr>)
      exampleEnv (hshData exampleEnv twoUsers)
   \<and> writeRljson sqlRun exampleEnv
        (usersDb\<lparr>ptables := [(''users_tbl'', \<lparr>pcols = [''_hash_col'', ''id_col'', ''name_col''],
                                               pkey = Some ''_hash_col'', prows = []\<rparr>)]\<rparr>) twoUsers
       = (Inr (), usersDb)
   \<and> writeRljson sqlRun exampleEnv usersDb twoUsers = (Inr (), usersDb)"
proof -
  let ?d = "usersDb\<lparr>ptables := [(''users_tbl'', \<lparr>pcols = [''_hash_col'', ''id_col'', ''name_col''],
                                                 pkey = Some ''_hash_col'', prows = []\<rparr>)]\<rparr>"
  have k: "requestKeyed ?d exampleEnv (hshData exampleEnv twoUsers)"
    by (simp add: requestKeyed_def keyed_def hshData_def twoUsers_def usersDb_def usersCfg_def
        activeCfg_def alice_def bob_def exampleEnv_def serializeRow_def cell_def
        addTableSuffix_def addColumnSuffix_def)
  have w: "writeRljson sqlRun exampleEnv ?d twoUsers = (Inr (), usersDb)"
    by (simp add: writeRljson_def hshData_def twoUsers_def throwWhenTablesDoNotExist_def tableExists_def
      throwWhenTableDataDoesNotMatchCfg_def activeCfg_def usersDb_def usersCfg_def alice_def bob_def
      exampleEnv_def insertStmt_def serializeRow_def sqlInsertOrIgnore_def collides_def cell_def
      addTableSuffix_def addColumnSuffix_def Let_def)
  from write_idempotent [OF w k] k w show ?thesis by simp
qed

text \<open>
  C2 as stated fails: the two users written twice to a table \<open>users\<close> that has no
  primary key. Both writes succeed; the table holds two rows after the first and four
  after the second.
\<close>

theorem write_twice_without_key_counterexample:
  "map_option prows (map_of (ptables (snd (writeRljson sqlRun exampleEnv
       (usersDb\<lparr>ptables := [(''users_tbl'', \<lparr>pcols = [''_hash_col'', ''id_col'', ''name_col''],
                                              pkey = None, prows = []\<rparr>)]\<rparr>) twoUsers))) ''users_tbl'')
     = Some [[SText ''h1'', SNum 1, SText ''Alice''], [SText ''h2'', SNum 2, SText ''Bob'']]
   \<and> map_option prows (map_of (ptables (snd (writeRljson sqlRun exampleEnv
        (snd (writeRljson sqlRun exampleEnv
          (usersDb\<lparr>ptables := [(''users_tbl'', \<lparr>pcols = [''_hash_col'', ''id_col'', ''name_col''],
                                                 pkey = None, prows = []\<rparr>)]\<rparr>) twoUsers)) twoUsers))) ''users_tbl'')
     = Some [[SText ''h1'', SNum 1, SText ''Alice''], [SText ''h2'', SNum 2, SText ''Bob''],
             [SText ''h1'', SNum 1, SText ''Alice''], [SText ''h2'', SNum 2, SText ''Bob'']]
   \<and> fst (writeRljson sqlRun exampleEnv
        (snd (writeRljson sqlRun exampleEnv
          (usersDb\<lparr>ptables := [(''users_tbl'', \<lparr>pcols = [''_hash_col'', ''id_col'', ''name_col''],
                                                 pkey = None, prows = []\<rparr>)]\<rparr>) twoUsers)) twoUsers) = Inr ()"
  by (simp add: writeRljson_def hshData_def twoUsers_def throwWhenTablesDoNotExist_def tableExists_def
      throwWhenTableDataDoesNotMatchCfg_def activeCfg_def usersDb_def usersCfg_def alice_def bob_def
      exampleEnv_def insertStmt_def serializeRow_def sqlInsertOrIgnore_def collides_def cell_def
      addTableSuffix_def addColumnSuffix_def Let_def)

subsection \<open>The statements given to the engine\<close>
















subsection \<open>Creating and extending tables\<close>

lemma cfgColumns_eval:
  "cfgColumns = [addColumnSuffix ''_hash'', addColumnSuffix ''key'', addColumnSuffix ''type'',
                 addColumnSuffix ''columns'']"
  by (simp add: cfgColumns_def tableCfgsTableCfg_def)

lemma one_parameter_row:
  "map (cell cfgColumns [v]) cfgColumns = [v, SNull, SNull, SNull]"
  by (simp add: cfgColumns_eval cell_def addColumnSuffix_def)

lemma one_parameter_row_key:
  "cell cfgColumns [v, SNull, SNull, SNull] (addColumnSuffix ''key'') = SNull"
  by (simp add: cfgColumns_eval cell_def addColumnSuffix_def)

lemma insertTableCfg_result:
  "insertTableCfg sqlRun env d c = (r, d') \<Longrightarrow>
     ptables d' = ptables d \<and> registry d' = registry d \<and>
     (case r of
        Inl e \<Rightarrow> d' = d
      | Inr _ \<Rightarrow> (\<exists>v. cfgRows d' = cfgRows d @ [[SText v, SNull, SNull, SNull]]))"
  by (auto simp: insertTableCfg_def sqlInsertTableCfg_def one_parameter_row Let_def
      split: if_splits)

lemma createTable_ok:
  assumes "createTable sqlRun env d hashed cfg = (Inr (), d1)"
  shows "(\<exists>v. cfgRows d1 = cfgRows d @ [[SText v, SNull, SNull, SNull]])
     \<and> map_of (ptables d1) (addTableSuffix (tkey cfg)) \<noteq> None \<and> registry d1 = registry d"
proof -
  obtain r d' where i: "insertTableCfg sqlRun env d hashed = (r, d')"
    by (cases "insertTableCfg sqlRun env d hashed")
  from assms i have r: "r = Inr ()"
    by (cases r) (simp_all add: createTable_def)
  from insertTableCfg_result [OF i] r obtain v where
    d': "ptables d' = ptables d" "registry d' = registry d"
      "cfgRows d' = cfgRows d @ [[SText v, SNull, SNull, SNull]]" by auto
  from assms i r have
    "sqlCreateTable d' (addTableSuffix (tkey cfg)) (map (\<lambda>col. addColumnSuffix (key col)) (columns cfg))
       (map_option addColumnSuffix (primaryKey env cfg)) = Inr d1"
    by (simp add: createTable_def split: sum.splits prod.splits)
  then have "cfgRows d1 = cfgRows d'" "registry d1 = registry d'"
    "map_of (ptables d1) (addTableSuffix (tkey cfg)) \<noteq> None"
    by (auto simp: sqlCreateTable_def map_add_def split: option.splits)
  with d' show ?thesis by auto
qed

lemma createTable_exists_fails:
  assumes "map_of (ptables d) (addTableSuffix (tkey cfg)) \<noteq> None"
  shows "\<exists>e d2. createTable sqlRun env d hashed cfg = (Inl e, d2)"
proof -
  obtain r d' where i: "insertTableCfg sqlRun env d hashed = (r, d')"
    by (cases "insertTableCfg sqlRun env d hashed")
  show ?thesis
  proof (cases r)
    case (Inl e)
    with i show ?thesis by (simp add: createTable_def)
  next
    case (Inr u)
    from insertTableCfg_result [OF i] have "ptables d' = ptables d" by simp
    with assms obtain pt where "map_of (ptables d') (addTableSuffix (tkey cfg)) = Some pt" by auto
    then show ?thesis
      using i Inr by (simp add: createTable_def sqlCreateTable_def)
  qed
qed

text \<open>
  C4: once a table has been created by \<open>createOrExtendTable\<close>, a further call for the
  same table key fails, whether with the same configuration or with added columns. The
  insert of the configuration binds the joined values as its one parameter, so the stored
  row has no key, the lookup by key finds nothing and the table is created a second
  time. (The claim asks for no change on the same columns and for an extension on added
  ones.)
\<close>

theorem createOrExtendTable_again_fails:
  assumes "sqlGet d SelectTableCfg [SText (tkey cfg)] = Inr None"
    and "createOrExtendTable sqlRun sqlGet env d cfg = (Inr (), d1)"
    and "tkey cfg' = tkey cfg"
  shows "\<exists>e d2. createOrExtendTable sqlRun sqlGet env d1 cfg' = (Inl e, d2)"
proof -
  from assms(1,2) have c: "createTable sqlRun env d (hshTableCfg env cfg) cfg = (Inr (), d1)"
    by (simp add: createOrExtendTable_def Let_def split: sum.splits)
  from createTable_ok [OF c] obtain v where
    rows: "cfgRows d1 = cfgRows d @ [[SText v, SNull, SNull, SNull]]"
    and ex: "map_of (ptables d1) (addTableSuffix (tkey cfg)) \<noteq> None" by blast
  from assms(1) have old: "filter (\<lambda>r. cell cfgColumns r (addColumnSuffix ''key'') = SText (tkey cfg)) (cfgRows d) = []"
    by (simp split: list.splits)
  have none: "sqlGet d1 SelectTableCfg [SText (tkey cfg')] = Inr None"
    using old rows assms(3) by (simp add: one_parameter_row_key)
  from ex assms(3) have "map_of (ptables d1) (addTableSuffix (tkey cfg')) \<noteq> None" by simp
  from createTable_exists_fails [OF this, of env "hshTableCfg env cfg'"]
  show ?thesis
    using none by (auto simp: createOrExtendTable_def Let_def split: sum.splits)
qed

text \<open>
  The scenario: \<open>users\<close> is created; the stored row of the configuration holds the
  joined values in its first column and nothing in the key column; the same
  configuration again is refused by the engine, and so is the configuration with the
  column \<open>email\<close> added.
\<close>

theorem createOrExtendTable_again_fails_witness:
  "sqlGet emptyDb SelectTableCfg [SText (tkey usersCfg)] = Inr None
   \<and> createOrExtendTable sqlRun sqlGet exampleEnv emptyDb usersCfg
       = (Inr (), \<lparr>ptables = [(''users_tbl'', \<lparr>pcols = [''_hash_col'', ''id_col'', ''name_col''],
                                               pkey = Some ''_hash_col'', prows = []\<rparr>)],
                   registry = [],
                   cfgRows = [[SText ''c1, users, components, {}'', SNull, SNull, SNull]]\<rparr>)
   \<and> createOrExtendTable sqlRun sqlGet exampleEnv
        \<lparr>ptables = [(''users_tbl'', \<lparr>pcols = [''_hash_col'', ''id_col'', ''name_col''],
                                      pkey = Some ''_hash_col'', prows = []\<rparr>)],
         registry = [],
         cfgRows = [[SText ''c1, users, components, {}'', SNull, SNull, SNull]]\<rparr> usersCfg
       = (Inl (SqlError ''ERR_SQLITE_ERROR'' ''UNIQUE constraint failed: tableCfgs_tbl._hash_col''),
          \<lparr>ptables = [(''users_tbl'', \<lparr>pcols = [''_hash_col'', ''id_col'', ''name_col''],
                                        pkey = Some ''_hash_col'', prows = []\<rparr>)],
           registry = [],
           cfgRows = [[SText ''c1, users, components, {}'', SNull, SNull, SNull]]\<rparr>)
   \<and> createOrExtendTable sqlRun sqlGet exampleEnv
        \<lparr>ptables = [(''users_tbl'', \<lparr>pcols = [''_hash_col'', ''id_col'', ''name_col''],
                                      pkey = Some ''_hash_col'', prows = []\<rparr>)],
         registry = [],
         cfgRows = [[SText ''c1, users, components, {}'', SNull, SNull, SNull]]\<rparr>
        (usersCfg\<lparr>columns := columns usersCfg @ [\<lparr>key = ''email'', type = ''string''\<rparr>], thash := ''c2''\<rparr>)
       = (Inl (SqlError ''ERR_SQLITE_ERROR'' ''table users_tbl already exists''),
          \<lparr>ptables = [(''users_tbl'', \<lparr>pcols = [''_hash_col'', ''id_col'', ''name_col''],
                                        pkey = Some ''_hash_col'', prows = []\<rparr>)],
           registry = [],
           cfgRows = [[SText ''c1, users, components, {}'', SNull, SNull, SNull],
                      [SText ''c2, users, components, {}'', SNull, SNull, SNull]]\<rparr>)"
proof -
  let ?d1 = "\<lparr>ptables = [(''users_tbl'', \<lparr>pcols = [''_hash_col'', ''id_col'', ''name_col''],
                                      pkey = Some ''_hash_col'', prows = []\<rparr>)],
         registry = [],
         cfgRows = [[SText ''c1, users, components, {}'', SNull, SNull, SNull]]\<rparr>"
  let ?ext = "usersCfg\<lparr>columns := columns usersCfg @ [\<lparr>key = ''email'', type = ''string''\<rparr>], thash := ''c2''\<rparr>"
  note defs = createOrExtendTable_def throwWhenTableIsNotCompatible_def activeCfg_def emptyDb_def
      createTable_def insertTableCfg_def hshTableCfg_def usersCfg_def exampleEnv_def sqlCreateTable_def
      sqlInsertTableCfg_def serializeRow_def tableCfgJson_def tableCfgsTableCfg_def joinValues_def
      cfgColumns_def cell_def addTableSuffix_def addColumnSuffix_def Let_def
  have g: "sqlGet emptyDb SelectTableCfg [SText (tkey usersCfg)] = Inr None"
    by (simp add: emptyDb_def)
  have a: "createOrExtendTable sqlRun sqlGet exampleEnv emptyDb usersCfg = (Inr (), ?d1)"
    by (simp add: defs)
  have b: "createOrExtendTable sqlRun sqlGet exampleEnv ?d1 usersCfg
       = (Inl (SqlError ''ERR_SQLITE_ERROR'' ''UNIQUE constraint failed: tableCfgs_tbl._hash_col''), ?d1)"
    by (simp add: defs)
  have c: "createOrExtendTable sqlRun sqlGet exampleEnv ?d1 ?ext
       = (Inl (SqlError ''ERR_SQLITE_ERROR'' ''table users_tbl already exists''),
          ?d1\<lparr>cfgRows := [[SText ''c1, users, components, {}'', SNull, SNull, SNull],
                           [SText ''c2, users, components, {}'', SNull, SNull, SNull]]\<rparr>)"
    by (simp add: defs)
  from createOrExtendTable_again_fails [OF g a, of usersCfg]
  have "\<exists>e d2. createOrExtendTable sqlRun sqlGet exampleEnv ?d1 usersCfg = (Inl e, d2)"
    by simp
  then show ?thesis using g a b c by simp
qed

end
